theory Spec2Isabelle
  imports Main "HOL-Library.Sublist" "HOL-Library.Char_ord" "HOL-Library.List_Lexorder"
    "HOL-Library.AList"
begin

chapter \<open>The model\<close>

text \<open>
  A shallow embedding of the three scripts of the repository:
  \<^item> \<^verbatim>\<open>ros_base_imgs/build.py\<close> stages a build context in a temporary directory, runs
    \<^verbatim>\<open>docker build\<close> on it and filters the log;
  \<^item> \<^verbatim>\<open>ros_base_imgs/create_docker_files.py\<close> stages the same kind of context and keeps it;
  \<^item> \<^verbatim>\<open>sensor_imgs/build.py\<close> runs \<^verbatim>\<open>docker build\<close> on a Dockerfile given by the user.

  Python strings are lists of characters with code points below 256.  Everything the
  scripts read from outside (the command line after argparse, the file system, the clock,
  what the child processes do, a Ctrl-C of the user) is an explicit argument.
\<close>

section \<open>Regular expressions\<close>

text \<open>
  The scripts use two patterns of Python's \<^verbatim>\<open>re\<close> module.  Both are built from character
  classes, concatenation, alternation, optional parts and repetition only, so a pattern is a
  term of \<open>rexp\<close>; \<open>lang\<close> is the set of strings a pattern matches in full.  The matcher
  works by derivatives, so it runs on concrete strings.
\<close>

type_synonym char_range = "char \<times> char"

definition in_range :: "char \<Rightarrow> char_range \<Rightarrow> bool" where
  "in_range c r = (fst r \<le> c \<and> c \<le> snd r)"

definition in_cls :: "char \<Rightarrow> char_range list \<Rightarrow> bool" where
  "in_cls c rs = list_ex (in_range c) rs"

datatype rexp =
    Never
  | Eps
  | Cls "char_range list"
  | Alt rexp rexp
  | Seq rexp rexp
  | Rep rexp

inductive_set star :: "string set \<Rightarrow> string set" for A :: "string set" where
  star_nil: "[] \<in> star A"
| star_app: "u \<in> A \<Longrightarrow> v \<in> star A \<Longrightarrow> u @ v \<in> star A"

fun lang :: "rexp \<Rightarrow> string set" where
  "lang Never = {}"
| "lang Eps = {[]}"
| "lang (Cls rs) = {[c] | c. in_cls c rs}"
| "lang (Alt r s) = lang r \<union> lang s"
| "lang (Seq r s) = {u @ v | u v. u \<in> lang r \<and> v \<in> lang s}"
| "lang (Rep r) = star (lang r)"

fun nullable :: "rexp \<Rightarrow> bool" where
  "nullable Never = False"
| "nullable Eps = True"
| "nullable (Cls rs) = False"
| "nullable (Alt r s) = (nullable r \<or> nullable s)"
| "nullable (Seq r s) = (nullable r \<and> nullable s)"
| "nullable (Rep r) = True"

fun deriv :: "char \<Rightarrow> rexp \<Rightarrow> rexp" where
  "deriv c Never = Never"
| "deriv c Eps = Never"
| "deriv c (Cls rs) = (if in_cls c rs then Eps else Never)"
| "deriv c (Alt r s) = Alt (deriv c r) (deriv c s)"
| "deriv c (Seq r s) =
     (if nullable r then Alt (Seq (deriv c r) s) (deriv c s) else Seq (deriv c r) s)"
| "deriv c (Rep r) = Seq (deriv c r) (Rep r)"

text \<open>\<open>matches r s\<close>: the whole of \<open>s\<close> matches \<open>r\<close>.\<close>

definition matches :: "rexp \<Rightarrow> string \<Rightarrow> bool" where
  "matches r s = nullable (fold deriv s r)"

text \<open>\<open>match_prefix r s\<close>: some prefix of \<open>s\<close> matches \<open>r\<close> (\<^verbatim>\<open>pattern.match(s)\<close>).\<close>

fun match_prefix :: "rexp \<Rightarrow> string \<Rightarrow> bool" where
  "match_prefix r [] = nullable r"
| "match_prefix r (c # cs) = (nullable r \<or> match_prefix (deriv c r) cs)"

text \<open>
  \<open>re_search r s\<close>: \<^verbatim>\<open>pattern.search(s)\<close> finds a match, that is, the pattern matches at
  some position of \<open>s\<close>; the positions are tried from left to right.
\<close>

fun re_search :: "rexp \<Rightarrow> string \<Rightarrow> bool" where
  "re_search r [] = nullable r"
| "re_search r (c # cs) = (match_prefix r (c # cs) \<or> re_search r cs)"

text \<open>
  \<open>re_match_anchored r s\<close>: \<^verbatim>\<open>re.compile("^" + r + "$").match(s)\<close> finds a match.  Without
  the MULTILINE flag \<^verbatim>\<open>^\<close> is the start of the string, and \<^verbatim>\<open>$\<close> is the end of the string
  or the position just before a newline that is the last character of the string.
\<close>

definition newline :: char where
  "newline = CHR 0x0A"

definition re_match_anchored :: "rexp \<Rightarrow> string \<Rightarrow> bool" where
  "re_match_anchored r s =
     (matches r s \<or> (s \<noteq> [] \<and> last s = newline \<and> matches r (butlast s)))"

text \<open>
  The pattern operators \<^verbatim>\<open>x?\<close> and \<^verbatim>\<open>x+\<close> and a literal character; \<open>rep_n n x\<close> below is
  \<^verbatim>\<open>x{n}\<close>.
\<close>

definition Opt :: "rexp \<Rightarrow> rexp" where
  "Opt r = Alt r Eps"

definition Many1 :: "rexp \<Rightarrow> rexp" where
  "Many1 r = Seq r (Rep r)"

definition Lit :: "char \<Rightarrow> rexp" where
  "Lit c = Cls [(c, c)]"

text \<open>
  \<^verbatim>\<open>\d\<close>.  On a Python \<^verbatim>\<open>str\<close> it matches every Unicode decimal digit; below code point 256
  these are the ten ASCII digits.
\<close>

definition digit :: rexp where
  "digit = Cls [(CHR ''0'', CHR ''9'')]"

subsection \<open>The image-name pattern\<close>

text \<open>
  \<^verbatim>\<open>is_valid_docker_img_name\<close> (the same text in all three scripts), part by part:
  \<^verbatim>\<open>
  host_and_port_prefix = r"([a-z0-9.-]+(:[0-9]+)?/)?"
  path_separator = r"(?:\.|_{1,2}|-+)"
  path_component = rf"[a-z0-9]+(?:{path_separator}[a-z0-9]+)*"
  path_re = rf"{path_component}(/{path_component})*"
  tag_re = r"(:[a-zA-Z0-9_.-]+)?"
  full_re = re.compile(rf"^{host_and_port_prefix}{path_re}{tag_re}$")
  return bool(full_re.match(name))
  \<close>
\<close>

definition lower_alnum :: rexp where
  "lower_alnum = Cls [(CHR ''a'', CHR ''z''), (CHR ''0'', CHR ''9'')]"

definition host_and_port_prefix :: rexp where
  "host_and_port_prefix =
     Opt (Seq (Many1 (Cls [(CHR ''a'', CHR ''z''), (CHR ''0'', CHR ''9''),
                           (CHR ''.'', CHR ''.''), (CHR ''-'', CHR ''-'')]))
         (Seq (Opt (Seq (Lit CHR '':'') (Many1 (Cls [(CHR ''0'', CHR ''9'')]))))
              (Lit CHR ''/'')))"

definition path_separator :: rexp where
  "path_separator =
     Alt (Lit CHR ''.'')
         (Alt (Seq (Lit CHR ''_'') (Opt (Lit CHR ''_''))) (Many1 (Lit CHR ''-'')))"

definition path_component :: rexp where
  "path_component = Seq (Many1 lower_alnum) (Rep (Seq path_separator (Many1 lower_alnum)))"

definition path_re :: rexp where
  "path_re = Seq path_component (Rep (Seq (Lit CHR ''/'') path_component))"

definition tag_re :: rexp where
  "tag_re =
     Opt (Seq (Lit CHR '':'')
              (Many1 (Cls [(CHR ''a'', CHR ''z''), (CHR ''A'', CHR ''Z''), (CHR ''0'', CHR ''9''),
                           (CHR ''_'', CHR ''_''), (CHR ''.'', CHR ''.''), (CHR ''-'', CHR ''-'')])))"

definition full_re :: rexp where
  "full_re = Seq host_and_port_prefix (Seq path_re tag_re)"

definition is_valid_docker_img_name :: "string \<Rightarrow> bool" where
  "is_valid_docker_img_name name = re_match_anchored full_re name"

subsection \<open>The log marker pattern\<close>

text \<open>
  \<^verbatim>\<open>specific_log_pattern = re.compile(r"(\[\d{4}-\d{2}-\d{2}_\d{2}-\d{2}-\d{2}\])")\<close>, and the
  test \<^verbatim>\<open>if specific_log_pattern.search(line)\<close> of the log filter.
\<close>

fun rep_n :: "nat \<Rightarrow> rexp \<Rightarrow> rexp" where
  "rep_n 0 r = Eps"
| "rep_n (Suc n) r = Seq r (rep_n n r)"

definition specific_log_pattern :: rexp where
  "specific_log_pattern =
     Seq (Lit CHR ''['') (Seq (rep_n 4 digit)
    (Seq (Lit CHR ''-'') (Seq (rep_n 2 digit)
    (Seq (Lit CHR ''-'') (Seq (rep_n 2 digit)
    (Seq (Lit CHR ''_'') (Seq (rep_n 2 digit)
    (Seq (Lit CHR ''-'') (Seq (rep_n 2 digit)
    (Seq (Lit CHR ''-'') (Seq (rep_n 2 digit)
         (Lit CHR '']''))))))))))))"

definition log_line_selected :: "string \<Rightarrow> bool" where
  "log_line_selected line = re_search specific_log_pattern line"

text \<open>
  The words of the specification about the marker: a run of \<open>n\<close> digits.
\<close>

definition ascii_digit :: "char \<Rightarrow> bool" where
  "ascii_digit c = (c \<in> set ''0123456789'')"

definition digits :: "nat \<Rightarrow> string \<Rightarrow> bool" where
  "digits n w = (length w = n \<and> list_all ascii_digit w)"


section \<open>Python values, exceptions and strings\<close>

text \<open>
  The exceptions the scripts raise or meet.  \<^verbatim>\<open>sys.exit(n)\<close> raises \<open>SystemExit n\<close>;
  \<open>SystemExit\<close> and \<open>KeyboardInterrupt\<close> are not subclasses of \<^verbatim>\<open>Exception\<close>, the others are.
\<close>

datatype exn =
    SystemExit int
  | KeyboardInterrupt
  | OSError
  | AttributeError
  | NameError
  | TypeError
  | ValueError
  | IndexError
  | KeyError
  | TemplateSyntaxError

fun is_Exception :: "exn \<Rightarrow> bool" where
  "is_Exception (SystemExit n) = False"
| "is_Exception KeyboardInterrupt = False"
| "is_Exception e = True"

text \<open>
  The values a manifest item holds: \<^verbatim>\<open>None\<close>, a bool, a string or a dictionary (in insertion
  order) of such scalars, as in \<^verbatim>\<open>dict[str, list[str | dict[str, str] | bool]]\<close>.
\<close>

datatype scalar =
    SNone
  | SBool bool
  | SStr string

datatype pyval =
    PNone
  | PBool bool
  | PStr string
  | PDict "(string \<times> scalar) list"

text \<open>The truth value of \<^verbatim>\<open>if x:\<close>, and \<^verbatim>\<open>isinstance(x, dict)\<close>.\<close>

fun truthy :: "pyval \<Rightarrow> bool" where
  "truthy PNone = False"
| "truthy (PBool b) = b"
| "truthy (PStr s) = (s \<noteq> [])"
| "truthy (PDict d) = (d \<noteq> [])"

fun is_dict :: "pyval \<Rightarrow> bool" where
  "is_dict (PDict d) = True"
| "is_dict v = False"

text \<open>
  \<^verbatim>\<open>str.strip()\<close> and \<^verbatim>\<open>str.lower()\<close> on code points below 256, and \<^verbatim>\<open>s.replace(a, b)\<close> for
  single characters.
\<close>

definition py_isspace :: "char \<Rightarrow> bool" where
  "py_isspace c = ((of_char c :: nat) \<in> set [9, 10, 11, 12, 13, 28, 29, 30, 31, 32, 133, 160])"

definition py_strip :: "string \<Rightarrow> string" where
  "py_strip s = rev (dropWhile py_isspace (rev (dropWhile py_isspace s)))"

definition py_lower_char :: "char \<Rightarrow> char" where
  "py_lower_char c =
     (let n = (of_char c :: nat)
      in if (65 \<le> n \<and> n \<le> 90) \<or> (192 \<le> n \<and> n \<le> 214) \<or> (216 \<le> n \<and> n \<le> 222)
         then char_of (n + 32) else c)"

definition py_lower :: "string \<Rightarrow> string" where
  "py_lower s = map py_lower_char s"

definition py_replace :: "char \<Rightarrow> char \<Rightarrow> string \<Rightarrow> string" where
  "py_replace a b s = map (\<lambda>c. if c = a then b else c) s"

text \<open>\<^verbatim>\<open>s.split(sep)\<close> for a separator of one character.\<close>

fun py_split :: "char \<Rightarrow> string \<Rightarrow> string list" where
  "py_split sep [] = [[]]"
| "py_split sep (c # cs) =
     (if c = sep then [] # py_split sep cs
      else (case py_split sep cs of [] \<Rightarrow> [[c]] | w # ws \<Rightarrow> (c # w) # ws))"

section \<open>Paths and the file system\<close>

text \<open>
  A \<^verbatim>\<open>pathlib.Path\<close> is the list of its components below the root.  Parsing a string drops
  empty components and \<^verbatim>\<open>.\<close>, as pathlib does, and keeps \<^verbatim>\<open>..\<close>.  \<^verbatim>\<open>p.joinpath(s)\<close> is \<open>s\<close>
  alone when \<open>s\<close> is absolute.  All paths of the scripts are absolute (they start from the
  resolved directory of the script or from \<^verbatim>\<open>/tmp\<close>).
\<close>

type_synonym path = "string list"

definition py_parts :: "string \<Rightarrow> path" where
  "py_parts s = filter (\<lambda>c. c \<noteq> [] \<and> c \<noteq> ''.'') (py_split CHR ''/'' s)"

definition is_absolute :: "string \<Rightarrow> bool" where
  "is_absolute s = (case s of [] \<Rightarrow> False | c # cs \<Rightarrow> c = CHR ''/'')"

definition joinpath :: "path \<Rightarrow> string \<Rightarrow> path" where
  "joinpath p s = (if is_absolute s then py_parts s else p @ py_parts s)"

definition parent :: "path \<Rightarrow> path" where
  "parent p = butlast p"

definition path_str :: "path \<Rightarrow> string" where
  "path_str p = (if p = [] then ''/'' else concat (map (\<lambda>c. ''/'' @ c) p))"

section \<open>What the scripts are given\<close>

text \<open>
  The arguments of \<^verbatim>\<open>ros_base_imgs/build.py\<close> as argparse returns them.  The other two scripts
  use a part of them: \<^verbatim>\<open>create_docker_files.py\<close> has no \<^verbatim>\<open>--cache\<close>, \<^verbatim>\<open>--pull\<close>, \<^verbatim>\<open>--entrypoint\<close>
  and \<^verbatim>\<open>--environment\<close> but has \<^verbatim>\<open>--use-host-nvidia-driver\<close>; \<^verbatim>\<open>sensor_imgs/build.py\<close> reads
  \<^verbatim>\<open>--cache\<close>, \<^verbatim>\<open>--pull\<close>, the distro, a Dockerfile, the image id and the three labels.
\<close>

record args =
  arg_cache :: bool
  arg_pull :: bool
  arg_base_img :: "string option"
  arg_img_user :: string
  arg_ros_distro :: string
  arg_img_id :: string
  arg_use_base_img_entrypoint :: bool
  arg_entrypoint :: "string option"
  arg_no_environment :: bool
  arg_environment :: "string option"
  arg_use_host_nvidia_driver :: bool
  arg_dockerfile :: string
  arg_meta_title :: string
  arg_meta_desc :: string
  arg_meta_authors :: string

text \<open>
  What a print statement writes, one constructor for each statement of the scripts that the
  properties below look at, with the values it formats.
\<close>

datatype notice =
    CreatedContextDir string
  | RequiredResourceMissing string
  | RequiredResourceNotFile string
  | RequiredResourceNotDir string
  | CreatingFile string
  | CreatingDirectory string
  | SourcePathEmpty string
  | ContextIsNone string
  | ContextNotDict string
  | BaseImageNotFoundLocally string
  | PullSpecified string
  | UsingLocalBaseImage string
  | BuildingImage string
  | ExecutingCommand "string list"
  | ChildLine string
  | BuildSuccess string
  | LogReady string
  | NoMatchingLines
  | SpecificLogReady string
  | CouldNotRemoveLog
  | LogMissing string
  | AbortedByUser
  | ErrorRaised exn
  | ValidationError string

text \<open>
  A child process of \<^verbatim>\<open>docker build\<close>: it writes lines and exits with a return code, or the
  user presses Ctrl-C while the script reads its output (after the lines given).
\<close>

datatype child =
    Exited "string list" int
  | Interrupted "string list"

text \<open>
  Everything else a run depends on.  \<open>root_path\<close> is the directory of the script, \<open>cwd\<close>
  the working directory, \<open>ros_distros_yaml\<close> what \<^verbatim>\<open>yaml.safe_load\<close> reads from
  \<^verbatim>\<open>ros_distros.yaml\<close> (for each distro its ROS version and its Ubuntu version; \<open>None\<close> when
  the file is missing or cannot be parsed), \<open>getuid\<close> and \<open>getgid\<close> the ids of the user as
  text, \<open>tmp_dir\<close> the fresh name that \<^verbatim>\<open>tempfile\<close> picks, \<open>docker_image_inspect\<close> the return code of
  \<^verbatim>\<open>docker image inspect\<close> for an image, \<open>docker_build\<close> what the build does, \<open>now_label\<close> and
  \<open>now_log\<close> the clock read by \<^verbatim>\<open>isoformat()\<close> and by \<^verbatim>\<open>strftime\<close>, \<open>unlink_raises\<close> whether
  deleting a log file meets an \<^verbatim>\<open>OSError\<close>, \<open>dir_mode\<close> and \<open>file_mode\<close> the permission bits
  that the umask of the process leaves to a new directory and to a new file, and
  \<open>jinja_render\<close> the template engine: the text of a template and the value given to
  \<^verbatim>\<open>template.render\<close> to the rendered text or the exception raised.
\<close>

record world =
  root_path :: path
  cwd :: path
  ros_distros_yaml :: "(string \<times> string \<times> string) list option"
  getuid :: string
  getgid :: string
  tmp_dir :: path
  docker_image_inspect :: "string \<Rightarrow> int"
  docker_build :: child
  now_label :: string
  now_log :: string
  unlink_raises :: bool
  dir_mode :: nat
  file_mode :: nat
  jinja_render :: "string \<Rightarrow> pyval \<Rightarrow> exn + string"

section \<open>The file system and the state of a run\<close>

text \<open>
  A file has a content and permission bits, a directory has permission bits.  Times and
  owners are not part of the model.
\<close>

datatype node =
    File string nat
  | Dir nat

type_synonym filesystem = "path \<Rightarrow> node option"

definition is_file :: "filesystem \<Rightarrow> path \<Rightarrow> bool" where
  "is_file fs p = (case fs p of Some (File c m) \<Rightarrow> True | _ \<Rightarrow> False)"

definition is_dir :: "filesystem \<Rightarrow> path \<Rightarrow> bool" where
  "is_dir fs p = (case fs p of Some (Dir m) \<Rightarrow> True | _ \<Rightarrow> False)"

text \<open>The permission bits \<^verbatim>\<open>0o775\<close>, \<^verbatim>\<open>0o664\<close> and \<^verbatim>\<open>0o700\<close>.\<close>

definition mode_775 :: nat where
  "mode_775 = 7 * 64 + 7 * 8 + 5"

definition mode_664 :: nat where
  "mode_664 = 6 * 64 + 6 * 8 + 4"

definition mode_700 :: nat where
  "mode_700 = 7 * 64"

text \<open>
  \<^verbatim>\<open>Path.mkdir(parents=True)\<close>: the path must not exist; every missing ancestor and the path
  itself are created with the mode the umask leaves; an ancestor that is a file is an error.
\<close>

fun ensure_dirs :: "nat \<Rightarrow> path list \<Rightarrow> filesystem \<Rightarrow> exn + filesystem" where
  "ensure_dirs m [] fs = Inr fs"
| "ensure_dirs m (q # qs) fs =
     (case fs q of
        None \<Rightarrow> ensure_dirs m qs (fs(q \<mapsto> Dir m))
      | Some (Dir k) \<Rightarrow> ensure_dirs m qs fs
      | Some (File c k) \<Rightarrow> Inl OSError)"

definition mkdir_parents :: "nat \<Rightarrow> path \<Rightarrow> filesystem \<Rightarrow> exn + filesystem" where
  "mkdir_parents m p fs = (if fs p \<noteq> None then Inl OSError else ensure_dirs m (prefixes p) fs)"

text \<open>
  \<^verbatim>\<open>with p.open("w") as f: f.write(text)\<close>: the parent must be a directory and \<open>p\<close> must not
  be one; a new file gets the mode the umask leaves, an old one keeps its mode.
\<close>

definition write_text :: "nat \<Rightarrow> path \<Rightarrow> string \<Rightarrow> filesystem \<Rightarrow> exn + filesystem" where
  "write_text m p text fs =
     (if \<not> is_dir fs (parent p) then Inl OSError
      else case fs p of
             Some (Dir k) \<Rightarrow> Inl OSError
           | Some (File c k) \<Rightarrow> Inr (fs(p \<mapsto> File text k))
           | None \<Rightarrow> Inr (fs(p \<mapsto> File text m)))"

text \<open>\<^verbatim>\<open>Path.touch()\<close>: an existing path is left as it is.\<close>

definition touch :: "nat \<Rightarrow> path \<Rightarrow> filesystem \<Rightarrow> exn + filesystem" where
  "touch m p fs =
     (if fs p \<noteq> None then Inr fs
      else if \<not> is_dir fs (parent p) then Inl OSError
      else Inr (fs(p \<mapsto> File [] m)))"

definition chmod :: "path \<Rightarrow> nat \<Rightarrow> filesystem \<Rightarrow> exn + filesystem" where
  "chmod p m fs =
     (case fs p of
        None \<Rightarrow> Inl OSError
      | Some (File c k) \<Rightarrow> Inr (fs(p \<mapsto> File c m))
      | Some (Dir k) \<Rightarrow> Inr (fs(p \<mapsto> Dir m)))"

text \<open>
  \<^verbatim>\<open>shutil.copy2(src, dst)\<close>: the content and the permission bits of the file \<open>src\<close> go to
  \<open>dst\<close>, or into \<open>dst\<close> under the name of \<open>src\<close> when \<open>dst\<close> is a directory; copying a file
  onto itself is an error.
\<close>

definition copy2 :: "path \<Rightarrow> path \<Rightarrow> filesystem \<Rightarrow> exn + filesystem" where
  "copy2 src dst fs =
     (case fs src of
        Some (File c k) \<Rightarrow>
          (if src = [] then Inl OSError
           else
            (let target = (if is_dir fs dst then dst @ [last src] else dst)
             in if target = src \<or> \<not> is_dir fs (parent target) \<or> is_dir fs target then Inl OSError
                else Inr (fs(target \<mapsto> File c k))))
      | _ \<Rightarrow> Inl OSError)"

text \<open>
  \<^verbatim>\<open>shutil.copytree(src, dst, copy_function=shutil.copy2)\<close>: \<open>dst\<close> must not exist; its missing
  ancestors are created; everything at and below \<open>src\<close> is copied with its permission bits
  (\<^verbatim>\<open>copy2\<close> for the files, \<^verbatim>\<open>copystat\<close> for the directories).  Copying a directory into
  itself is an error.
\<close>

definition copytree :: "nat \<Rightarrow> path \<Rightarrow> path \<Rightarrow> filesystem \<Rightarrow> exn + filesystem" where
  "copytree m src dst fs =
     (if \<not> is_dir fs src \<or> fs dst \<noteq> None \<or> prefix src dst then Inl OSError
      else case ensure_dirs m (prefixes (parent dst)) fs of
             Inl e \<Rightarrow> Inl e
           | Inr fs1 \<Rightarrow>
               Inr (\<lambda>q. if prefix dst q then fs (src @ drop (length dst) q) else fs1 q))"

text \<open>The cleanup of \<^verbatim>\<open>tempfile.TemporaryDirectory\<close>: the directory and all below it go.\<close>

definition remove_tree :: "path \<Rightarrow> filesystem \<Rightarrow> filesystem" where
  "remove_tree d fs = (\<lambda>q. if prefix d q then None else fs q)"

text \<open>
  The state of a run: the file system and what has been printed.  An action changes the
  state and may raise; the state it leaves is kept in both cases.
\<close>

record state =
  files :: filesystem
  console :: "notice list"

type_synonym action = "state \<Rightarrow> exn option \<times> state"

definition skip :: action where
  "skip s = (None, s)"

definition emit :: "notice \<Rightarrow> action" where
  "emit n s = (None, s\<lparr>console := console s @ [n]\<rparr>)"

definition throw :: "exn \<Rightarrow> action" where
  "throw e s = (Some e, s)"

definition fs_op :: "(filesystem \<Rightarrow> exn + filesystem) \<Rightarrow> action" where
  "fs_op f s = (case f (files s) of Inl e \<Rightarrow> (Some e, s) | Inr fs \<Rightarrow> (None, s\<lparr>files := fs\<rparr>))"

text \<open>Statements one after the other: the first exception ends the sequence.\<close>

fun run :: "action list \<Rightarrow> action" where
  "run [] s = (None, s)"
| "run (a # as) s = (case a s of (Some e, s') \<Rightarrow> (Some e, s') | (None, s') \<Rightarrow> run as s')"

section \<open>The build command\<close>

text \<open>
  \<^verbatim>\<open>img_exists_locally\<close>: the query runs with \<^verbatim>\<open>check=False\<close>, so a failing query raises
  nothing and only its return code is read.
\<close>

definition img_exists_locally :: "world \<Rightarrow> string \<Rightarrow> bool" where
  "img_exists_locally w img = (docker_image_inspect w img = 0)"

text \<open>
  \<^verbatim>\<open>for k, v in d.items(): cmd += [flag, f"{k}={v}"]\<close>: a dictionary is its list of items in
  insertion order.
\<close>

definition add_flags :: "string \<Rightarrow> (string \<times> string) list \<Rightarrow> string list \<Rightarrow> string list" where
  "add_flags flag d cmd = fold (\<lambda>(k, v) c. c @ [flag, k @ ''='' @ v]) d cmd"

text \<open>
  The values \<^verbatim>\<open>ros_base_imgs/build.py\<close> computes from its arguments before it stages the
  context.
\<close>

record derived =
  base_img :: string
  requested_user :: string
  requested_user_home :: string
  ros_distro :: string
  ros_version :: string
  ubuntu_version :: string
  img_id_to_build :: string

definition ros_build_args :: "derived \<Rightarrow> (string \<times> string) list" where
  "ros_build_args d =
     [(''BASE_IMG'', base_img d),
      (''REQUESTED_USER'', requested_user d),
      (''REQUESTED_USER_HOME'', requested_user_home d),
      (''ROS_DISTRO'', ros_distro d),
      (''ROS_VERSION'', ros_version d)]"

definition ros_labels :: "world \<Rightarrow> args \<Rightarrow> (string \<times> string) list" where
  "ros_labels w a =
     [(''org.opencontainers.image.created'', now_label w),
      (''org.opencontainers.image.title'', py_strip (arg_meta_title a)),
      (''org.opencontainers.image.authors'', py_strip (arg_meta_authors a)),
      (''org.opencontainers.image.description'', py_strip (arg_meta_desc a))]"

text \<open>
  Lines 377 to 418 of \<^verbatim>\<open>ros_base_imgs/build.py\<close>: the notice printed by the pull branch and
  the command.
\<close>

definition ros_make_cmd :: "world \<Rightarrow> args \<Rightarrow> derived \<Rightarrow> path \<Rightarrow> notice list \<times> string list" where
  "ros_make_cmd w a d context_dir =
     (let cmd0 = [''docker'', ''build'', ''--file'',
                  path_str (joinpath context_dir ''Dockerfile''), ''--progress=plain''];
          (printed, cmd1) =
            (if \<not> arg_pull a \<and> \<not> img_exists_locally w (base_img d)
             then ([BaseImageNotFoundLocally (base_img d)], cmd0)
             else if arg_pull a
             then ([PullSpecified (base_img d)], cmd0 @ [''--pull''])
             else ([UsingLocalBaseImage (base_img d)], cmd0));
          cmd2 = (if \<not> arg_cache a then cmd1 @ [''--no-cache''] else cmd1);
          cmd3 = add_flags ''--build-arg'' (ros_build_args d) cmd2;
          cmd4 = add_flags ''--label'' (ros_labels w a) cmd3;
          cmd5 = cmd4 @ [''--tag'', img_id_to_build d];
          cmd6 = cmd5 @ [path_str context_dir]
      in (printed, cmd6))"

text \<open>
  Lines 228 to 264 of \<^verbatim>\<open>sensor_imgs/build.py\<close>.  The script never queries the local images
  and prints nothing when \<^verbatim>\<open>--pull\<close> is absent.  With \<^verbatim>\<open>--pull\<close> the print statement of line
  237 formats \<^verbatim>\<open>base_img\<close>, a name the script never binds, and raises \<^verbatim>\<open>NameError\<close> before the
  flag is appended.  The labels are stripped when the arguments are read (lines 196 to
  198).
\<close>

definition sensor_arguments :: "derived \<Rightarrow> (string \<times> string) list" where
  "sensor_arguments d =
     [(''UBUNTU_VERSION'', ubuntu_version d),
      (''ROS_DISTRO'', ros_distro d),
      (''ROS_VERSION'', ros_version d)]"

definition sensor_labels :: "world \<Rightarrow> args \<Rightarrow> (string \<times> string) list" where
  "sensor_labels w a =
     [(''org.opencontainers.image.created'', now_label w),
      (''org.opencontainers.image.title'', py_strip (arg_meta_title a)),
      (''org.opencontainers.image.description'', py_strip (arg_meta_desc a)),
      (''org.opencontainers.image.authors'', py_strip (arg_meta_authors a))]"

definition sensor_make_cmd :: "world \<Rightarrow> args \<Rightarrow> derived \<Rightarrow> path \<Rightarrow> notice list \<times> (exn + string list)" where
  "sensor_make_cmd w a d dockerfile =
     (let cmd0 = [''docker'', ''build'', ''--file'', path_str dockerfile, ''--progress=plain'']
      in if arg_pull a then ([], Inl NameError)
         else
          (let cmd2 = (if \<not> arg_cache a then cmd0 @ [''--no-cache''] else cmd0);
               cmd3 = add_flags ''--build-arg'' (sensor_arguments d) cmd2;
               cmd4 = add_flags ''--label'' (sensor_labels w a) cmd3;
               cmd5 = cmd4 @ [''--tag'', img_id_to_build d];
               cmd6 = cmd5 @ [path_str (parent dockerfile)]
           in ([], Inr cmd6)))"

text \<open>
  How \<^verbatim>\<open>docker build\<close> reads such a command line: \<^verbatim>\<open>--file\<close>, \<^verbatim>\<open>--build-arg\<close>, \<^verbatim>\<open>--label\<close> and
  \<^verbatim>\<open>--tag\<close> take the next word as their value.  \<open>flag_values f cmd\<close> are the values given to
  \<open>f\<close>, in order; \<open>switches cmd\<close> are the words that are not such a flag or its value;
  \<open>key_of\<close> is the key of \<^verbatim>\<open>key=value\<close>.
\<close>

definition value_flags :: "string list" where
  "value_flags = [''--file'', ''--build-arg'', ''--label'', ''--tag'']"

fun flag_values :: "string \<Rightarrow> string list \<Rightarrow> string list" where
  "flag_values f (a # b # rest) =
     (if a \<in> set value_flags
      then (if a = f then b # flag_values f rest else flag_values f rest)
      else flag_values f (b # rest))"
| "flag_values f rest = []"

fun switches :: "string list \<Rightarrow> string list" where
  "switches (a # b # rest) =
     (if a \<in> set value_flags then switches rest else a # switches (b # rest))"
| "switches rest = rest"

definition key_of :: "string \<Rightarrow> string" where
  "key_of kv = takeWhile (\<lambda>c. c \<noteq> CHR ''='') kv"


section \<open>The template engine\<close>

text \<open>
  Jinja2 is a library, not code of the repository; staging takes the engine from the
  \<open>world\<close>.  Both scripts build it with
  \<^verbatim>\<open>Environment(loader=FileSystemLoader(...), trim_blocks=True, lstrip_blocks=True)\<close> and so
  leave \<^verbatim>\<open>undefined\<close> at its default, the class \<^verbatim>\<open>Undefined\<close>, which prints as the empty
  string.  \<open>jinja2_default\<close> is that engine on templates made of text and of expressions
  \<^verbatim>\<open>{{ name }}\<close>: \<^verbatim>\<open>template.render(x)\<close> turns \<open>x\<close> into a dictionary with \<^verbatim>\<open>dict(x)\<close>, a name the
  dictionary lacks gives the empty string, and one newline at the end of the template is
  dropped (\<^verbatim>\<open>keep_trailing_newline\<close> is off).  It says nothing about templates with blocks,
  comments or other expressions.
\<close>

datatype piece =
    Text string
  | Var string

fun scan :: "bool \<Rightarrow> string \<Rightarrow> string \<Rightarrow> piece list option" where
  "scan False acc (c1 # c2 # cs) =
     (if c1 = CHR ''{'' \<and> c2 = CHR ''{'' then map_option ((#) (Text acc)) (scan True [] cs)
      else scan False (acc @ [c1]) (c2 # cs))"
| "scan True acc (c1 # c2 # cs) =
     (if c1 = CHR ''}'' \<and> c2 = CHR ''}'' then map_option ((#) (Var (py_strip acc))) (scan False [] cs)
      else scan True (acc @ [c1]) (c2 # cs))"
| "scan False acc cs = Some [Text (acc @ cs)]"
| "scan True acc cs = None"

fun py_str :: "scalar \<Rightarrow> string" where
  "py_str SNone = ''None''"
| "py_str (SBool b) = (if b then ''True'' else ''False'')"
| "py_str (SStr s) = s"

text \<open>
  \<^verbatim>\<open>dict(x)\<close>: a dictionary is copied; \<^verbatim>\<open>None\<close> and a bool are not iterable; a string is a
  sequence of strings of length 1, which are no key-value pairs, so only the empty string
  gives a dictionary.
\<close>

fun py_dict :: "pyval \<Rightarrow> exn + (string \<times> scalar) list" where
  "py_dict (PDict d) = Inr d"
| "py_dict PNone = Inl TypeError"
| "py_dict (PBool b) = Inl TypeError"
| "py_dict (PStr s) = (if s = [] then Inr [] else Inl ValueError)"

fun expand :: "(string \<times> scalar) list \<Rightarrow> piece \<Rightarrow> string" where
  "expand d (Text t) = t"
| "expand d (Var x) = (case map_of d x of None \<Rightarrow> [] | Some v \<Rightarrow> py_str v)"

definition chop_newline :: "string \<Rightarrow> string" where
  "chop_newline t = (if t \<noteq> [] \<and> last t = newline then butlast t else t)"

definition jinja2_default :: "string \<Rightarrow> pyval \<Rightarrow> exn + string" where
  "jinja2_default template x =
     (case scan False [] (chop_newline template) of
        None \<Rightarrow> Inl TemplateSyntaxError
      | Some pieces \<Rightarrow>
          (case py_dict x of
             Inl e \<Rightarrow> Inl e
           | Inr d \<Rightarrow> Inr (concat (map (expand d) pieces))))"

section \<open>Staging the build context\<close>

text \<open>
  A manifest is a dictionary from destination names to items; an item is a list of one, two
  or three values.  \<open>dict_keys\<close> are its keys in insertion order, and
  \<^verbatim>\<open>for key in sorted(items.keys()): item = items[key]\<close> is \<open>for_keys body items (sort (dict_keys
  items))\<close>.
\<close>

type_synonym manifest = "(string \<times> pyval list) list"

definition dict_keys :: "('k \<times> 'v) list \<Rightarrow> 'k list" where
  "dict_keys d = remdups (map fst d)"

fun for_keys :: "(string \<Rightarrow> pyval list \<Rightarrow> action) \<Rightarrow> manifest \<Rightarrow> string list \<Rightarrow> action" where
  "for_keys body items [] s = (None, s)"
| "for_keys body items (k # ks) s =
     (case map_of items k of
        None \<Rightarrow> (Some KeyError, s)
      | Some item \<Rightarrow>
          (case body k item s of
             (Some e, s') \<Rightarrow> (Some e, s')
           | (None, s') \<Rightarrow> for_keys body items ks s'))"

text \<open>
  \<^verbatim>\<open>if not ok: print(...); sys.exit(1)\<close>, and
  \<^verbatim>\<open>if not dst_path.parent.exists(): dst_path.parent.mkdir(parents=True)\<close>.
\<close>

definition require :: "(filesystem \<Rightarrow> bool) \<Rightarrow> notice \<Rightarrow> action" where
  "require ok n s = (if ok (files s) then (None, s) else run [emit n, throw (SystemExit 1)] s)"

definition mkdir_parent_if_missing :: "world \<Rightarrow> path \<Rightarrow> action" where
  "mkdir_parent_if_missing w dst s =
     (if files s (parent dst) = None then fs_op (mkdir_parents (dir_mode w) (parent dst)) s
      else (None, s))"

text \<open>
  \<^verbatim>\<open>get_template\<close>, \<^verbatim>\<open>render\<close> and then \<^verbatim>\<open>open("w")\<close> and \<^verbatim>\<open>write\<close>: the destination is opened
  only after the text has been rendered.
\<close>

definition render_to :: "world \<Rightarrow> path \<Rightarrow> pyval \<Rightarrow> path \<Rightarrow> action" where
  "render_to w src x dst s =
     (case files s src of
        Some (File template k) \<Rightarrow>
          (case jinja_render w template x of
             Inl e \<Rightarrow> (Some e, s)
           | Inr rendered_text \<Rightarrow> fs_op (write_text (file_mode w) dst rendered_text) s)
      | _ \<Rightarrow> (Some OSError, s))"

definition chmod_by :: "path \<Rightarrow> pyval \<Rightarrow> action" where
  "chmod_by dst executable = fs_op (chmod dst (if truthy executable then mode_775 else mode_664))"

text \<open>
  The body of the staging loop of \<^verbatim>\<open>ros_base_imgs/build.py\<close> (lines 316 to 371).
  \<^verbatim>\<open>item[0].startswith("/")\<close> needs a string.
\<close>

definition stage_item :: "world \<Rightarrow> path \<Rightarrow> string \<Rightarrow> pyval list \<Rightarrow> action" where
  "stage_item w context_dir key item =
     (let dst_path = joinpath context_dir key
      in case item of
           [] \<Rightarrow> throw IndexError
         | PStr src # rest \<Rightarrow>
             (let src_path = (if is_absolute src then py_parts src else joinpath (root_path w) src)
              in run [
                   require (\<lambda>fs. fs src_path \<noteq> None) (RequiredResourceMissing (path_str src_path)),
                   require (\<lambda>fs. is_file fs src_path) (RequiredResourceNotFile (path_str src_path)),
                   mkdir_parent_if_missing w dst_path,
                   emit (CreatingFile (path_str dst_path)),
                   (if length item = 2 then
                      run [fs_op (copy2 src_path dst_path), chmod_by dst_path (item ! 1)]
                    else if length item = 3 then
                      run [
                        (if item ! 1 = PNone
                         then run [emit (ContextIsNone (path_str dst_path)), throw (SystemExit 1)]
                         else skip),
                        (if \<not> is_dict (item ! 1)
                         then run [emit (ContextNotDict (path_str dst_path)), throw (SystemExit 1)]
                         else skip),
                        mkdir_parent_if_missing w dst_path,
                        render_to w src_path (item ! 1) dst_path,
                        chmod_by dst_path (item ! 2)]
                    else skip)])
         | x0 # rest \<Rightarrow> throw AttributeError)"

definition stage_loop :: "world \<Rightarrow> manifest \<Rightarrow> path \<Rightarrow> action" where
  "stage_loop w items context_dir = for_keys (stage_item w context_dir) items (sort (dict_keys items))"

text \<open>
  The body of the loop of \<^verbatim>\<open>install_items\<close> in \<^verbatim>\<open>create_docker_files.py\<close> (lines 162 to 252).
  After the two messages about the context (lines 233 to 237) there is no \<^verbatim>\<open>sys.exit\<close>.
\<close>

definition install_item :: "world \<Rightarrow> path \<Rightarrow> string \<Rightarrow> pyval list \<Rightarrow> action" where
  "install_item w context_dir key item =
     (let dst_path = joinpath context_dir key
      in case item of
           [] \<Rightarrow> throw IndexError
         | x0 # rest \<Rightarrow>
            (case (case x0 of
                     PNone \<Rightarrow> Inr None
                   | PStr src \<Rightarrow> Inr (Some (joinpath (root_path w) src))
                   | x \<Rightarrow> Inl TypeError) of
               Inl e \<Rightarrow> throw e
             | Inr src_path \<Rightarrow>
                 run [
                   (case src_path of
                      None \<Rightarrow> skip
                    | Some sp \<Rightarrow> require (\<lambda>fs. fs sp \<noteq> None) (RequiredResourceMissing (path_str sp))),
                   (if length item = 1 then
                      run [
                        emit (CreatingDirectory (path_str dst_path)),
                        (case src_path of
                           Some sp \<Rightarrow>
                             run [
                               require (\<lambda>fs. is_dir fs sp) (RequiredResourceNotDir (path_str sp)),
                               mkdir_parent_if_missing w dst_path,
                               fs_op (copytree (dir_mode w) sp dst_path),
                               fs_op (chmod dst_path mode_775)]
                         | None \<Rightarrow> fs_op (mkdir_parents (dir_mode w) dst_path))]
                    else if length item = 2 then
                      run [
                        emit (CreatingFile (path_str dst_path)),
                        (case src_path of
                           Some sp \<Rightarrow>
                             run [
                               require (\<lambda>fs. is_file fs sp) (RequiredResourceNotFile (path_str sp)),
                               mkdir_parent_if_missing w dst_path,
                               fs_op (copy2 sp dst_path)]
                         | None \<Rightarrow> fs_op (touch (file_mode w) dst_path)),
                        chmod_by dst_path (item ! 1)]
                    else if length item = 3 then
                      run [
                        emit (CreatingFile (path_str dst_path)),
                        (case src_path of
                           None \<Rightarrow> run [emit (SourcePathEmpty (path_str dst_path)), throw (SystemExit 1)]
                         | Some sp \<Rightarrow>
                             run [
                               require (\<lambda>fs. is_file fs sp) (RequiredResourceNotFile (path_str sp)),
                               (if item ! 1 = PNone then emit (ContextIsNone (path_str dst_path)) else skip),
                               (if \<not> is_dict (item ! 1) then emit (ContextNotDict (path_str dst_path))
                                else skip),
                               mkdir_parent_if_missing w dst_path,
                               render_to w sp (item ! 1) dst_path,
                               chmod_by dst_path (item ! 2)])]
                    else skip)]))"

definition install_items :: "world \<Rightarrow> manifest \<Rightarrow> path \<Rightarrow> action" where
  "install_items w items context_dir =
     for_keys (install_item w context_dir) items (sort (dict_keys items))"

section \<open>Running the build and filtering the log\<close>

text \<open>
  \<^verbatim>\<open>Path.unlink\<close>: an \<^verbatim>\<open>OSError\<close> when the world says so, when the path is a directory, or
  when the file is missing and \<^verbatim>\<open>missing_ok\<close> is off.
\<close>

definition unlink :: "world \<Rightarrow> bool \<Rightarrow> path \<Rightarrow> filesystem \<Rightarrow> exn + filesystem" where
  "unlink w missing_ok p fs =
     (if unlink_raises w then Inl OSError
      else case fs p of
             None \<Rightarrow> (if missing_ok then Inr fs else Inl OSError)
           | Some (Dir k) \<Rightarrow> Inl OSError
           | Some (File c k) \<Rightarrow> Inr (fs(p := None)))"

text \<open>\<^verbatim>\<open>f.write(line)\<close> on a file opened for writing: the line goes to the end.\<close>

definition append_text :: "path \<Rightarrow> string \<Rightarrow> filesystem \<Rightarrow> exn + filesystem" where
  "append_text p line fs =
     (case fs p of
        Some (File c k) \<Rightarrow> Inr (fs(p \<mapsto> File (c @ line) k))
      | _ \<Rightarrow> Inl OSError)"

text \<open>\<^verbatim>\<open>for line in f\<close>: the lines of a text, each with its newline.\<close>

fun py_lines_from :: "string \<Rightarrow> string \<Rightarrow> string list" where
  "py_lines_from acc [] = (if acc = [] then [] else [acc])"
| "py_lines_from acc (c # cs) =
     (if c = newline then (acc @ [c]) # py_lines_from [] cs else py_lines_from (acc @ [c]) cs)"

definition py_lines :: "string \<Rightarrow> string list" where
  "py_lines t = py_lines_from [] t"

text \<open>The names of the two log files (the same lines in both build scripts).\<close>

definition log_prefix :: "world \<Rightarrow> string \<Rightarrow> string" where
  "log_prefix w img_id =
     ''build_img_'' @ py_replace CHR ''/'' CHR ''_'' (py_replace CHR '':'' CHR ''_'' img_id)
       @ ''_'' @ now_log w"

definition complete_log_file :: "world \<Rightarrow> string \<Rightarrow> path" where
  "complete_log_file w img_id = joinpath [''tmp''] (log_prefix w img_id @ ''_complete.log'')"

definition specific_log_file :: "world \<Rightarrow> string \<Rightarrow> path" where
  "specific_log_file w img_id = joinpath [''tmp''] (log_prefix w img_id @ ''_specific.log'')"

text \<open>
  The part of a build script that runs inside \<^verbatim>\<open>try\<close> assigns to the variable \<^verbatim>\<open>exit_code\<close>,
  which the \<^verbatim>\<open>finally\<close> clause reads.  So this part is a function from the value of the
  variable and the state to the exception raised, if any, the new value of the variable
  and the new state.
\<close>

type_synonym coded = "int \<Rightarrow> state \<Rightarrow> exn option \<times> int \<times> state"

definition lift :: "action \<Rightarrow> coded" where
  "lift a code s = (case a s of (e, s') \<Rightarrow> (e, code, s'))"

fun run_coded :: "coded list \<Rightarrow> coded" where
  "run_coded [] code s = (None, code, s)"
| "run_coded (a # as) code s =
     (case a code s of
        (Some e, code', s') \<Rightarrow> (Some e, code', s')
      | (None, code', s') \<Rightarrow> run_coded as code' s')"

text \<open>
  \<^verbatim>\<open>try: p.unlink(...)  except OSError as e: print(...); exit_code = exit_code if exit_code
  != 0 else 1\<close>.
\<close>

definition unlink_or_flag :: "world \<Rightarrow> bool \<Rightarrow> path \<Rightarrow> coded" where
  "unlink_or_flag w missing_ok p code s =
     (case unlink w missing_ok p (files s) of
        Inr fs \<Rightarrow> (None, code, s\<lparr>files := fs\<rparr>)
      | Inl e \<Rightarrow>
          (None, (if code \<noteq> 0 then code else 1), s\<lparr>console := console s @ [CouldNotRemoveLog]\<rparr>))"

text \<open>
  The log filter: lines 463 to 493 of \<^verbatim>\<open>ros_base_imgs/build.py\<close>, lines 309 to 339 of
  \<^verbatim>\<open>sensor_imgs/build.py\<close>.  Opening the specific log for writing creates it before any line
  is read.
\<close>

definition filter_log :: "world \<Rightarrow> path \<Rightarrow> path \<Rightarrow> coded" where
  "filter_log w complete specific code s =
     (case files s complete of
        None \<Rightarrow> lift (emit (LogMissing (path_str complete))) code s
      | Some (Dir k) \<Rightarrow> (Some OSError, code, s)
      | Some (File text k) \<Rightarrow>
          (if text \<noteq> [] then
             (let selected = filter log_line_selected (py_lines text)
              in run_coded [
                   lift (emit (LogReady (path_str complete))),
                   lift (fs_op (write_text (file_mode w) specific (concat selected))),
                   (if length selected = 0
                    then run_coded [lift (emit NoMatchingLines), unlink_or_flag w False specific]
                    else lift (emit (SpecificLogReady (path_str specific))))] code s)
           else unlink_or_flag w True complete code s))"

text \<open>
  \<^verbatim>\<open>for line in process.stdout: print(line, end="", flush=True); full_log.write(line)\<close>.
\<close>

fun stream_lines :: "path \<Rightarrow> string list \<Rightarrow> action" where
  "stream_lines log [] s = (None, s)"
| "stream_lines log (line # rest) s =
     (case run [emit (ChildLine line), fs_op (append_text log line)] s of
        (Some e, s') \<Rightarrow> (Some e, s')
      | (None, s') \<Rightarrow> stream_lines log rest s')"

text \<open>
  From \<^verbatim>\<open>Popen\<close> to the end of the \<^verbatim>\<open>with\<close> block that holds the child and the complete log
  (lines 436 to 493 and 283 to 339).  The child runs with \<^verbatim>\<open>stderr=subprocess.STDOUT\<close>, so
  its attribute \<^verbatim>\<open>stderr\<close> is \<^verbatim>\<open>None\<close>; the message of the failure branch formats
  \<^verbatim>\<open>process.stderr.strip()\<close> and raises \<^verbatim>\<open>AttributeError\<close> before it prints, after \<^verbatim>\<open>exit_code\<close>
  has taken the return code.
\<close>

definition run_and_log :: "world \<Rightarrow> string \<Rightarrow> coded" where
  "run_and_log w img_id code s =
     (let complete = complete_log_file w img_id;
          specific = specific_log_file w img_id
      in case fs_op (write_text (file_mode w) complete []) s of
           (Some e, s1) \<Rightarrow> (Some e, code, s1)
         | (None, s1) \<Rightarrow>
             (case docker_build w of
                Interrupted lines \<Rightarrow>
                  (case stream_lines complete lines s1 of
                     (Some e, s2) \<Rightarrow> (Some e, code, s2)
                   | (None, s2) \<Rightarrow> (Some KeyboardInterrupt, code, s2))
              | Exited lines returncode \<Rightarrow>
                  (case stream_lines complete lines s1 of
                     (Some e, s2) \<Rightarrow> (Some e, code, s2)
                   | (None, s2) \<Rightarrow>
                       (if returncode = 0
                        then run_coded [lift (emit (BuildSuccess img_id)),
                                        filter_log w complete specific] returncode s2
                        else (Some AttributeError, returncode, s2)))))"

text \<open>
  \<^verbatim>\<open>except KeyboardInterrupt: print(...)  except Exception as e: print(...)  finally:
  sys.exit(exit_code)\<close>: the exit code of the process is the value of \<^verbatim>\<open>exit_code\<close>, whatever
  the \<^verbatim>\<open>try\<close> block raised.
\<close>

definition handle_and_exit :: "exn option \<times> int \<times> state \<Rightarrow> int \<times> state" where
  "handle_and_exit r =
     (case r of
        (None, code, s) \<Rightarrow> (code, s)
      | (Some KeyboardInterrupt, code, s) \<Rightarrow> (code, s\<lparr>console := console s @ [AbortedByUser]\<rparr>)
      | (Some e, code, s) \<Rightarrow>
          (if is_Exception e then (code, s\<lparr>console := console s @ [ErrorRaised e]\<rparr>)
           else (code, s)))"

text \<open>
  A script that ends by an exception nobody handles: \<^verbatim>\<open>SystemExit n\<close> gives the exit code
  \<open>n\<close>, Ctrl-C gives 130, every other exception a traceback and 1.
\<close>

definition uncaught :: "exn \<Rightarrow> int" where
  "uncaught e = (case e of SystemExit n \<Rightarrow> n | KeyboardInterrupt \<Rightarrow> 130 | _ \<Rightarrow> 1)"

section \<open>The three scripts\<close>

subsection \<open>\<^verbatim>\<open>ros_base_imgs/build.py\<close>\<close>

definition ROS_DISTROS :: "(string \<times> string) list" where
  "ROS_DISTROS = [(''noetic'', ''1:20.04''), (''humble'', ''2:22.04''), (''jazzy'', ''2:24.04'')]"

text \<open>\<^verbatim>\<open>print(...); sys.exit(1)\<close> of the checks that come before any file is staged.\<close>

definition fail_with :: "string \<Rightarrow> state \<Rightarrow> (exn + 'a) \<times> state" where
  "fail_with msg s = (Inl (SystemExit 1), s\<lparr>console := console s @ [ValidationError msg]\<rparr>)"

text \<open>Lines 180 to 211: the values derived from the arguments, and their checks.\<close>

definition derive :: "args \<Rightarrow> state \<Rightarrow> (exn + derived) \<times> state" where
  "derive a s =
     (let base = (case arg_base_img a of None \<Rightarrow> [] | Some b \<Rightarrow> py_strip b);
          user = py_strip (arg_img_user a);
          home = (if user \<noteq> ''root'' then ''/home/'' @ user else ''/root'');
          distro = py_lower (arg_ros_distro a);
          img = py_strip (arg_img_id a)
      in case map_of ROS_DISTROS distro of
           None \<Rightarrow> fail_with ''Invalid ROS distro'' s
         | Some v \<Rightarrow>
             (case py_split CHR '':'' v of
                [rv, uv] \<Rightarrow>
                  (let b = (if base = [] then ''ubuntu:'' @ uv else base)
                   in if \<not> is_valid_docker_img_name b then fail_with ''Invalid base image'' s
                      else if \<not> is_valid_docker_img_name img
                      then fail_with ''Invalid Docker image name'' s
                      else if user = [] \<or> CHR '' '' \<in> set user then fail_with ''Invalid user'' s
                      else (Inr \<lparr>base_img = b, requested_user = user, requested_user_home = home,
                                 ros_distro = distro, ros_version = rv, ubuntu_version = uv,
                                 img_id_to_build = img\<rparr>, s))
              | parts \<Rightarrow> (Inl ValueError, s)))"

text \<open>
  \<^verbatim>\<open>if not f.is_file(): print(...); sys.exit(1)\<close>, then \<^verbatim>\<open>f.read()\<close>, then the same exit when
  the text is blank.
\<close>

definition read_required :: "path \<Rightarrow> state \<Rightarrow> (exn + string) \<times> state" where
  "read_required f s =
     (case files s f of
        Some (File text k) \<Rightarrow>
          (if py_strip text = [] then fail_with ''File is empty'' s else (Inr text, s))
      | other \<Rightarrow> fail_with ''File not found'' s)"

text \<open>
  \<^verbatim>\<open>Path(x).expanduser().resolve()\<close> of a path given on the command line, and the check
  \<^verbatim>\<open>is_file() and st_size != 0\<close> of a custom script.
\<close>

definition resolve :: "world \<Rightarrow> string \<Rightarrow> path" where
  "resolve w x = joinpath (cwd w) x"

definition nonempty_file :: "filesystem \<Rightarrow> path \<Rightarrow> bool" where
  "nonempty_file fs p = (case fs p of Some (File text k) \<Rightarrow> text \<noteq> [] | other \<Rightarrow> False)"

text \<open>Lines 245 to 275: the manifest, first the entries every image has.\<close>

definition base_items :: "args \<Rightarrow> derived \<Rightarrow> string \<Rightarrow> string \<Rightarrow> manifest" where
  "base_items a d ros_packages extra_ros_env_vars =
     [(''Dockerfile'',
         [PStr ''Dockerfile.j2'',
          PDict [(''use_base_img_entrypoint'', SBool (arg_use_base_img_entrypoint a)),
                 (''use_environment'', SBool (\<not> arg_no_environment a)),
                 (''extra_ros_env_vars'', SStr extra_ros_env_vars)],
          PBool False]),
      (''deduplicate_path.sh'', [PStr ''deduplicate_path.sh'', PBool True]),
      (''dot_bash_aliases'', [PStr ''dot_bash_aliases'', PBool True]),
      (''install_base_system.sh'', [PStr ''install_base_system.sh'', PBool True]),
      (''install_ros.sh'',
         [PStr ''install_ros.j2'',
          PDict [(''use_environment'', SBool (\<not> arg_no_environment a)),
                 (''ros_packages'', SStr ros_packages)],
          PBool True]),
      (''rosbuild.sh'', [PStr (''ros'' @ ros_version d @ ''build.sh''), PBool True]),
      (''rosdep_init_update.sh'', [PStr ''rosdep_init_update.sh'', PBool True])]"

definition add_ros2_items :: "derived \<Rightarrow> manifest \<Rightarrow> manifest" where
  "add_ros2_items d items =
     (if ros_version d = ''2''
      then AList.update ''rosdep_ignored_keys.yaml''
             [PStr ''rosdep_ignored_keys_ros2.yaml'', PBool False]
             (AList.update ''colcon_mixin_metadata.sh''
                [PStr ''colcon_mixin_metadata.sh'', PBool True] items)
      else items)"

text \<open>Lines 277 to 287: the entrypoint script, the default one or the one given.\<close>

definition add_entrypoint :: "world \<Rightarrow> args \<Rightarrow> manifest \<Rightarrow> state \<Rightarrow> (exn + manifest) \<times> state" where
  "add_entrypoint w a items s =
     (if \<not> arg_use_base_img_entrypoint a then
        (case arg_entrypoint a of
           Some x \<Rightarrow>
             (if \<not> nonempty_file (files s) (resolve w x)
              then fail_with ''Custom entrypoint file not found'' s
              else (Inr (AList.update ''entrypoint.sh''
                           [PStr (path_str (resolve w x)), PBool True] items), s))
         | None \<Rightarrow>
             (Inr (AList.update ''entrypoint.sh'' [PStr ''entrypoint.sh'', PBool True] items), s))
      else (Inr items, s))"

text \<open>Lines 289 to 303: the environment script, rendered from a template or the one given.\<close>

definition add_environment ::
  "world \<Rightarrow> args \<Rightarrow> derived \<Rightarrow> manifest \<Rightarrow> state \<Rightarrow> (exn + manifest) \<times> state" where
  "add_environment w a d items s =
     (if \<not> arg_no_environment a then
        (case arg_environment a of
           Some x \<Rightarrow>
             (if \<not> nonempty_file (files s) (resolve w x)
              then fail_with ''Custom environment file not found'' s
              else (Inr (AList.update ''environment.sh''
                           [PStr (path_str (resolve w x)), PBool True] items), s))
         | None \<Rightarrow>
             (Inr (AList.update ''environment.sh''
                     [PStr (''environment_ros'' @ ros_version d @ ''.j2''),
                      PDict [(''ros_distro'', SStr (ros_distro d))], PBool True] items), s))
      else (Inr items, s))"

definition items_to_use ::
  "world \<Rightarrow> args \<Rightarrow> derived \<Rightarrow> string \<Rightarrow> string \<Rightarrow> state \<Rightarrow> (exn + manifest) \<times> state" where
  "items_to_use w a d ros_packages extra_ros_env_vars s =
     (case add_entrypoint w a
             (add_ros2_items d (base_items a d ros_packages extra_ros_env_vars)) s of
        (Inl e, s') \<Rightarrow> (Inl e, s')
      | (Inr items, s') \<Rightarrow> add_environment w a d items s')"

text \<open>Everything before the \<^verbatim>\<open>try\<close> statement (lines 179 to 306).\<close>

definition prepare :: "world \<Rightarrow> args \<Rightarrow> state \<Rightarrow> (exn + derived \<times> manifest) \<times> state" where
  "prepare w a s =
     (case derive a s of
        (Inl e, s1) \<Rightarrow> (Inl e, s1)
      | (Inr d, s1) \<Rightarrow>
          (case read_required (joinpath (root_path w) (''packages_ros'' @ ros_version d @ ''.txt'')) s1 of
             (Inl e, s2) \<Rightarrow> (Inl e, s2)
           | (Inr ros_packages, s2) \<Rightarrow>
               (case read_required
                       (joinpath (root_path w) (''env_vars_ros'' @ ros_version d @ ''.txt'')) s2 of
                  (Inl e, s3) \<Rightarrow> (Inl e, s3)
                | (Inr extra_ros_env_vars, s3) \<Rightarrow>
                    (case items_to_use w a d ros_packages extra_ros_env_vars s3 of
                       (Inl e, s4) \<Rightarrow> (Inl e, s4)
                     | (Inr items, s4) \<Rightarrow> (Inr (d, items), s4)))))"

text \<open>
  \<^verbatim>\<open>with tempfile.TemporaryDirectory(prefix="context_", dir="/tmp") as tmp_dir:\<close> the directory
  is created with mode \<^verbatim>\<open>0o700\<close>, the body runs, and the directory is removed with all it
  holds when the body ends, also when it ends by an exception.
\<close>

definition with_temporary_directory :: "world \<Rightarrow> (path \<Rightarrow> coded) \<Rightarrow> coded" where
  "with_temporary_directory w body code s =
     (case body (tmp_dir w) code (s\<lparr>files := (files s)(tmp_dir w \<mapsto> Dir mode_700)\<rparr>) of
        (e, code', s') \<Rightarrow> (e, code', s'\<lparr>files := remove_tree (tmp_dir w) (files s')\<rparr>))"

text \<open>The body of that \<^verbatim>\<open>with\<close> statement (lines 310 to 493).\<close>

definition build_in_context :: "world \<Rightarrow> args \<Rightarrow> derived \<Rightarrow> manifest \<Rightarrow> path \<Rightarrow> coded" where
  "build_in_context w a d items context_dir =
     run_coded [
       lift (emit (CreatedContextDir (path_str context_dir))),
       lift (stage_loop w items context_dir),
       lift (run (map emit (fst (ros_make_cmd w a d context_dir)))),
       lift (emit (BuildingImage (img_id_to_build d))),
       lift (emit (ExecutingCommand (snd (ros_make_cmd w a d context_dir)))),
       run_and_log w (img_id_to_build d)]"

text \<open>
  The script: its exit code and the state it leaves.  \<^verbatim>\<open>exit_code\<close> starts at 1 (line
  305).
\<close>

definition main_build :: "world \<Rightarrow> args \<Rightarrow> state \<Rightarrow> int \<times> state" where
  "main_build w a s =
     (case prepare w a s of
        (Inl e, s') \<Rightarrow> (uncaught e, s')
      | (Inr (d, items), s') \<Rightarrow>
          handle_and_exit (with_temporary_directory w (build_in_context w a d items) 1 s'))"

subsection \<open>\<^verbatim>\<open>sensor_imgs/build.py\<close>\<close>

text \<open>
  Lines 108 to 213.  The distro is not put in lower case, the Dockerfile path is resolved,
  and \<^verbatim>\<open>ros_distros.yaml\<close> gives the two versions.
\<close>

definition sensor_derive :: "world \<Rightarrow> args \<Rightarrow> state \<Rightarrow> (exn + derived \<times> path) \<times> state" where
  "sensor_derive w a s =
     (case ros_distros_yaml w of
        None \<Rightarrow> fail_with ''ros_distros.yaml is required'' s
      | Some ros_distros \<Rightarrow>
          (let dockerfile = resolve w (py_strip (arg_dockerfile a));
               img = py_strip (arg_img_id a)
           in case map_of ros_distros (arg_ros_distro a) of
                None \<Rightarrow> fail_with ''Invalid ROS distro'' s
              | Some (rv, uv) \<Rightarrow>
                  (if \<not> is_file (files s) dockerfile then fail_with ''Dockerfile does not exist'' s
                   else if \<not> is_valid_docker_img_name img
                   then fail_with ''Invalid Docker image name'' s
                   else (Inr (\<lparr>base_img = [], requested_user = [], requested_user_home = [],
                                ros_distro = arg_ros_distro a, ros_version = rv,
                                ubuntu_version = uv, img_id_to_build = img\<rparr>, dockerfile), s))))"

text \<open>
  The script.  The command is built before the \<^verbatim>\<open>try\<close> statement, so the \<^verbatim>\<open>NameError\<close> of the
  pull branch is not handled.  \<^verbatim>\<open>exit_code\<close> starts at 0 (line 277).
\<close>

definition main_sensor :: "world \<Rightarrow> args \<Rightarrow> state \<Rightarrow> int \<times> state" where
  "main_sensor w a s =
     (case sensor_derive w a s of
        (Inl e, s') \<Rightarrow> (uncaught e, s')
      | (Inr (d, dockerfile), s') \<Rightarrow>
          (case sensor_make_cmd w a d dockerfile of
             (printed, Inl e) \<Rightarrow> (uncaught e, s')
           | (printed, Inr cmd) \<Rightarrow>
               handle_and_exit
                 (run_coded [
                    lift (emit (BuildingImage (img_id_to_build d))),
                    lift (emit (ExecutingCommand cmd)),
                    run_and_log w (img_id_to_build d)] 0 s')))"

subsection \<open>\<^verbatim>\<open>ros_base_imgs/create_docker_files.py\<close>\<close>

text \<open>
  \<^verbatim>\<open>create_items_to_install\<close> (lines 24 to 136).  It is called after the temporary directory
  has been made.
\<close>

definition install_base_items :: "world \<Rightarrow> args \<Rightarrow> derived \<Rightarrow> string \<Rightarrow> string \<Rightarrow> manifest" where
  "install_base_items w a d ros_packages extra_ros_env_vars =
     [(''Dockerfile'',
         [PStr ''Dockerfile.j2'',
          PDict [(''base_img'', SStr (base_img d)),
                 (''img_user'', SStr (requested_user d)),
                 (''ros_distro'', SStr (ros_distro d)),
                 (''ros_version'', SStr (ros_version d)),
                 (''use_base_img_entrypoint'', SBool (arg_use_base_img_entrypoint a)),
                 (''use_environment'', SBool (\<not> arg_no_environment a)),
                 (''extra_ros_env_vars'', SStr extra_ros_env_vars)],
          PBool False]),
      (''build.py'',
         [PStr ''build.j2'',
          PDict [(''base_img'', SStr (base_img d)),
                 (''img_id'', SStr (img_id_to_build d)),
                 (''img_user'', SStr (requested_user d)),
                 (''ros_distro'', SStr (ros_distro d)),
                 (''ros_version'', SStr (ros_version d))],
          PBool True]),
      (''deduplicate_path.sh'', [PStr ''deduplicate_path.sh'', PBool True]),
      (''docker-compose.yaml'',
         [PStr ''docker-compose.j2'',
          PDict [(''service'',
                    SStr (py_replace CHR ''/'' CHR ''_''
                            (py_replace CHR '':'' CHR ''_'' (img_id_to_build d)) @ ''_cont'')),
                 (''img_id'', SStr (img_id_to_build d)),
                 (''img_workspace_dir'', SStr (''/home/'' @ requested_user d @ ''/workspace'')),
                 (''img_datasets_dir'', SStr (''/home/'' @ requested_user d @ ''/datasets'')),
                 (''img_ssh_dir'', SStr (''/home/'' @ requested_user d @ ''/.ssh'')),
                 (''img_gitconfig_file'', SStr (''/home/'' @ requested_user d @ ''/.gitconfig'')),
                 (''use_host_nvidia_driver'', SBool (arg_use_host_nvidia_driver a)),
                 (''ext_uid'', SStr (getuid w)),
                 (''ext_upgid'', SStr (getgid w))],
          PBool False]),
      (''dot_bash_aliases'', [PStr ''dot_bash_aliases'', PBool True]),
      (''install_base_system.sh'', [PStr ''install_base_system.sh'', PBool True]),
      (''install_ros.sh'',
         [PStr ''install_ros.j2'',
          PDict [(''use_environment'', SBool (\<not> arg_no_environment a)),
                 (''ros_packages'', SStr ros_packages)],
          PBool True]),
      (''rosbuild.sh'', [PStr (''ros'' @ ros_version d @ ''build.sh''), PBool True]),
      (''rosdep_init_update.sh'', [PStr ''rosdep_init_update.sh'', PBool True])]"

definition add_optional_items :: "args \<Rightarrow> derived \<Rightarrow> manifest \<Rightarrow> manifest" where
  "add_optional_items a d items =
     (let items2 =
            (if \<not> arg_use_base_img_entrypoint a
             then AList.update ''entrypoint.sh'' [PStr ''entrypoint.sh'', PBool True] items
             else items);
          items3 =
            (if \<not> arg_no_environment a
             then AList.update ''environment.sh''
                    [PStr (''environment_ros'' @ ros_version d @ ''.j2''),
                     PDict [(''ros_distro'', SStr (ros_distro d))], PBool True] items2
             else items2)
      in if \<not> arg_use_host_nvidia_driver a
         then AList.update ''install_mesa_packages.sh''
                [PStr ''install_default_mesa_packages.sh'', PBool True] items3
         else items3)"

definition create_items_to_install ::
  "world \<Rightarrow> args \<Rightarrow> derived \<Rightarrow> state \<Rightarrow> (exn + manifest) \<times> state" where
  "create_items_to_install w a d s =
     (case read_required (joinpath (root_path w) (''packages_ros'' @ ros_version d @ ''.txt'')) s of
        (Inl e, s1) \<Rightarrow> (Inl e, s1)
      | (Inr ros_packages, s1) \<Rightarrow>
          (case read_required
                  (joinpath (root_path w) (''env_vars_ros'' @ ros_version d @ ''.txt'')) s1 of
             (Inl e, s2) \<Rightarrow> (Inl e, s2)
           | (Inr extra_ros_env_vars, s2) \<Rightarrow>
               (Inr (add_optional_items a d
                       (add_ros2_items d
                          (install_base_items w a d ros_packages extra_ros_env_vars))), s2)))"

text \<open>
  The script (lines 352 to 410): the checks of the arguments, \<^verbatim>\<open>tempfile.mkdtemp\<close>, the
  manifest, \<^verbatim>\<open>install_items\<close>.  Nothing handles an exception and nothing removes the
  directory: the line with \<^verbatim>\<open>tempfile.TemporaryDirectory\<close> is commented out.
\<close>

definition main_create :: "world \<Rightarrow> args \<Rightarrow> state \<Rightarrow> int \<times> state" where
  "main_create w a s =
     (case derive a s of
        (Inl e, s1) \<Rightarrow> (uncaught e, s1)
      | (Inr d, s1) \<Rightarrow>
          (let s2 = s1\<lparr>files := (files s1)(tmp_dir w \<mapsto> Dir mode_700),
                      console := console s1 @ [CreatedContextDir (path_str (tmp_dir w))]\<rparr>
           in case create_items_to_install w a d s2 of
                (Inl e, s3) \<Rightarrow> (uncaught e, s3)
              | (Inr items, s3) \<Rightarrow>
                  (case install_items w items (tmp_dir w) s3 of
                     (Some e, s4) \<Rightarrow> (uncaught e, s4)
                   | (None, s4) \<Rightarrow> (0, s4))))"

section \<open>Observations\<close>

text \<open>
  What an example looks at after a staging or after a run: the exception or the exit code,
  what was printed, and what the file system holds at some paths.
\<close>

definition staged :: "path list \<Rightarrow> exn option \<times> state \<Rightarrow> exn option \<times> notice list \<times> node option list" where
  "staged ps r = (fst r, console (snd r), map (files (snd r)) ps)"

definition observed :: "path list \<Rightarrow> int \<times> state \<Rightarrow> int \<times> notice list \<times> node option list" where
  "observed ps r = (fst r, console (snd r), map (files (snd r)) ps)"

text \<open>The exit code of a run and what it leaves on disk at some paths.\<close>

definition left_behind :: "path list \<Rightarrow> int \<times> state \<Rightarrow> int \<times> node option list" where
  "left_behind ps r = (fst r, map (files (snd r)) ps)"

text \<open>
  For a run of a build script: the exit code, the last thing printed, and the complete log
  and the specific log of an image.
\<close>

definition logs_after :: "world \<Rightarrow> string \<Rightarrow> int \<times> state \<Rightarrow> int \<times> notice option \<times> node option \<times> node option" where
  "logs_after w img_id r =
     (fst r,
      (if console (snd r) = [] then None else Some (last (console (snd r)))),
      files (snd r) (complete_log_file w img_id),
      files (snd r) (specific_log_file w img_id))"

section \<open>A sample world\<close>

text \<open>
  A small concrete file system, world and command line for the examples: the scripts of
  \<^verbatim>\<open>ros_base_imgs\<close> live in \<^verbatim>\<open>/opt/repo\<close> with the resources of a ROS 2 image and a directory
  \<^verbatim>\<open>cfg\<close>; \<^verbatim>\<open>/opt/sensor\<close> holds a Dockerfile; \<^verbatim>\<open>/tmp\<close> is empty.
\<close>

definition sample_files :: filesystem where
  "sample_files =
     [[] \<mapsto> Dir mode_775,
      [''opt''] \<mapsto> Dir mode_775,
      [''opt'', ''repo''] \<mapsto> Dir mode_775,
      [''opt'', ''repo'', ''packages_ros2.txt''] \<mapsto> File ''ros-humble-desktop'' mode_664,
      [''opt'', ''repo'', ''env_vars_ros2.txt''] \<mapsto> File ''RMW=x'' mode_664,
      [''opt'', ''repo'', ''Dockerfile.j2''] \<mapsto> File ''FROM {{ base_img }}'' mode_664,
      [''opt'', ''repo'', ''deduplicate_path.sh''] \<mapsto> File ''d'' mode_664,
      [''opt'', ''repo'', ''dot_bash_aliases''] \<mapsto> File ''a'' mode_664,
      [''opt'', ''repo'', ''install_base_system.sh''] \<mapsto> File ''b'' mode_664,
      [''opt'', ''repo'', ''install_ros.j2''] \<mapsto> File ''apt install {{ ros_packages }}'' mode_664,
      [''opt'', ''repo'', ''ros2build.sh''] \<mapsto> File ''colcon build'' mode_664,
      [''opt'', ''repo'', ''rosdep_init_update.sh''] \<mapsto> File ''r'' mode_664,
      [''opt'', ''repo'', ''colcon_mixin_metadata.sh''] \<mapsto> File ''c'' mode_664,
      [''opt'', ''repo'', ''rosdep_ignored_keys_ros2.yaml''] \<mapsto> File ''k'' mode_664,
      [''opt'', ''repo'', ''entrypoint.sh''] \<mapsto> File ''exec bash'' mode_664,
      [''opt'', ''repo'', ''environment_ros2.j2''] \<mapsto> File ''source {{ ros_distro }}'' mode_664,
      [''opt'', ''repo'', ''build.j2''] \<mapsto> File ''build {{ img_id }}'' mode_664,
      [''opt'', ''repo'', ''docker-compose.j2''] \<mapsto> File ''image: {{ img_id }}'' mode_664,
      [''opt'', ''repo'', ''install_default_mesa_packages.sh''] \<mapsto> File ''m'' mode_664,
      [''opt'', ''repo'', ''cfg''] \<mapsto> Dir mode_775,
      [''opt'', ''repo'', ''cfg'', ''a.txt''] \<mapsto> File ''a'' mode_664,
      [''opt'', ''sensor''] \<mapsto> Dir mode_775,
      [''opt'', ''sensor'', ''Dockerfile''] \<mapsto> File ''FROM ubuntu'' mode_664,
      [''tmp''] \<mapsto> Dir mode_775]"

definition sample_world :: world where
  "sample_world =
     \<lparr>root_path = [''opt'', ''repo''],
      cwd = [''home'', ''dev''],
      ros_distros_yaml = Some [(''humble'', ''2'', ''22.04'')],
      getuid = ''1000'',
      getgid = ''1000'',
      tmp_dir = [''tmp'', ''context_x''],
      docker_image_inspect = (\<lambda>img. 1),
      docker_build = Exited [] 0,
      now_label = ''2024-01-01T00:00:00+00:00'',
      now_log = ''2024-01-01_00-00-00'',
      unlink_raises = False,
      dir_mode = 7 * 64 + 5 * 8 + 5,
      file_mode = 6 * 64 + 4 * 8 + 4,
      jinja_render = jinja2_default\<rparr>"

text \<open>
  More worlds: a build that prints three lines and succeeds, a build that prints two lines
  and fails, a build that fails without a word, and a build that the user interrupts after
  its first line.
\<close>

definition world_success :: world where
  "world_success =
     sample_world\<lparr>docker_build :=
       Exited [''[2024-01-01_00-00-00] start'' @ [newline], ''noise'' @ [newline],
               ''[2024-01-01_00-00-05] done'' @ [newline]] 0\<rparr>"

definition world_failure :: world where
  "world_failure =
     sample_world\<lparr>docker_build :=
       Exited [''[2024-01-01_00-00-00] start'' @ [newline], ''boom'' @ [newline]] 1\<rparr>"

definition world_silent_failure :: world where
  "world_silent_failure = sample_world\<lparr>docker_build := Exited [] 1\<rparr>"

definition world_interrupt :: world where
  "world_interrupt = sample_world\<lparr>docker_build := Interrupted [''step 1'' @ [newline]]\<rparr>"

text \<open>
  Three manifests: a template given a dictionary that lacks the variable of the template, the
  same template given the empty string in place of a dictionary, and a directory to copy.
\<close>

definition manifest_missing_variable :: manifest where
  "manifest_missing_variable =
     [(''Dockerfile'', [PStr ''Dockerfile.j2'', PDict [(''use_environment'', SBool True)], PBool False])]"

definition manifest_bad_context :: manifest where
  "manifest_bad_context =
     [(''Dockerfile'', [PStr ''Dockerfile.j2'', PStr [], PBool False]),
      (''entrypoint.sh'', [PStr ''entrypoint.sh'', PBool True])]"

definition manifest_directory :: manifest where
  "manifest_directory = [(''cfg'', [PStr ''cfg''])]"

text \<open>The file system with the temporary directory made, as staging finds it.\<close>

definition staging_state :: state where
  "staging_state =
     \<lparr>files = sample_files([''tmp'', ''context_x''] \<mapsto> Dir mode_700), console = []\<rparr>"

definition sample_state :: state where
  "sample_state = \<lparr>files = sample_files, console = []\<rparr>"

definition sample_args :: args where
  "sample_args =
     \<lparr>arg_cache = False,
      arg_pull = False,
      arg_base_img = None,
      arg_img_user = ''dev'',
      arg_ros_distro = ''humble'',
      arg_img_id = ''ros:humble'',
      arg_use_base_img_entrypoint = False,
      arg_entrypoint = None,
      arg_no_environment = False,
      arg_environment = None,
      arg_use_host_nvidia_driver = False,
      arg_dockerfile = ''/opt/sensor/Dockerfile'',
      arg_meta_title = ''t'',
      arg_meta_desc = ''d'',
      arg_meta_authors = ''me''\<rparr>"

definition sample_derived :: derived where
  "sample_derived =
     \<lparr>base_img = ''ubuntu:22.04'',
      requested_user = ''dev'',
      requested_user_home = ''/home/dev'',
      ros_distro = ''humble'',
      ros_version = ''2'',
      ubuntu_version = ''22.04'',
      img_id_to_build = ''ros:humble''\<rparr>"


text \<open>A name as a template may use it: letters, digits and underscores, no digit first.\<close>

definition ascii_letter :: "char \<Rightarrow> bool" where
  "ascii_letter c = (c \<in> set ''abcdefghijklmnopqrstuvwxyzABCDEFGHIJKLMNOPQRSTUVWXYZ'')"

definition is_identifier :: "string \<Rightarrow> bool" where
  "is_identifier x =
     (case x of
        [] \<Rightarrow> False
      | c # cs \<Rightarrow> (ascii_letter c \<or> c = CHR ''_'') \<and>
                 list_all (\<lambda>c. ascii_letter c \<or> ascii_digit c \<or> c = CHR ''_'') cs)"

section \<open>Invariants and simulations\<close>

text \<open>
  \<open>keeps P a\<close>: the action \<open>a\<close> keeps the property \<open>P\<close> of the file system, whether it
  raises or not.
\<close>

definition keeps :: "(filesystem \<Rightarrow> bool) \<Rightarrow> action \<Rightarrow> bool" where
  "keeps P a = (\<forall>s. P (files s) \<longrightarrow> P (files (snd (a s))))"

text \<open>
  Two file systems seen by two stagings into the directory \<open>c\<close>.  \<open>alike\<close>: the same kind of
  node, and for files the same content; the permission bits may differ.  \<open>same_contents c\<close>:
  alike everywhere, and equal (permission bits included) at \<open>c\<close> and below.
  \<open>no_dirs_below c\<close>: \<open>c\<close> has no subdirectory.  A destination name is plain when it is one
  path component: not empty, not \<^verbatim>\<open>.\<close> or \<^verbatim>\<open>..\<close>, without \<^verbatim>\<open>/\<close>.
\<close>

fun alike :: "node option \<Rightarrow> node option \<Rightarrow> bool" where
  "alike None None = True"
| "alike (Some (File x m)) (Some (File y n)) = (x = y)"
| "alike (Some (Dir m)) (Some (Dir n)) = True"
| "alike a b = False"

definition same_contents :: "path \<Rightarrow> filesystem \<Rightarrow> filesystem \<Rightarrow> bool" where
  "same_contents c fs1 fs2 = (\<forall>p. if prefix c p then fs1 p = fs2 p else alike (fs1 p) (fs2 p))"

definition no_dirs_below :: "path \<Rightarrow> filesystem \<Rightarrow> bool" where
  "no_dirs_below c fs = (\<forall>p. prefix c p \<and> p \<noteq> c \<longrightarrow> \<not> is_dir fs p)"

definition plain_name :: "string \<Rightarrow> bool" where
  "plain_name k = (k \<noteq> [] \<and> k \<noteq> ''.'' \<and> k \<noteq> ''..'' \<and> CHR ''/'' \<notin> set k)"

text \<open>
  \<open>related c s1 s2\<close>: the two states print the same and hold the same contents, and \<open>c\<close>
  has no subdirectory.  \<open>simulates c a\<close>: from related states the action \<open>a\<close> raises the same
  or not at all, and leaves related states.
\<close>

definition related :: "path \<Rightarrow> state \<Rightarrow> state \<Rightarrow> bool" where
  "related c s1 s2 =
     (same_contents c (files s1) (files s2) \<and> no_dirs_below c (files s1) \<and> console s1 = console s2)"

definition simulates :: "path \<Rightarrow> action \<Rightarrow> bool" where
  "simulates c a =
     (\<forall>s1 s2. related c s1 s2 \<longrightarrow>
        fst (a s1) = fst (a s2) \<and> related c (snd (a s1)) (snd (a s2)))"

text \<open>
  \<open>together c f\<close>: from two such file systems the step \<open>f\<close> of the file system fails the same
  or not at all, and leaves two such file systems.
\<close>

definition together :: "path \<Rightarrow> (filesystem \<Rightarrow> exn + filesystem) \<Rightarrow> bool" where
  "together c f =
     (\<forall>fs1 fs2. same_contents c fs1 fs2 \<and> no_dirs_below c fs1 \<longrightarrow>
        (case f fs1 of
           Inl e \<Rightarrow> f fs2 = Inl e
         | Inr a \<Rightarrow> (\<exists>b. f fs2 = Inr b \<and> same_contents c a b \<and> no_dirs_below c a)))"

chapter \<open>Properties\<close>

section \<open>The matcher decides the language of a pattern\<close>

lemma nullable_iff: "nullable r \<longleftrightarrow> [] \<in> lang r"
  by (induction r) (auto intro: star.intros)

lemma star_cons_aux:
  assumes "x \<in> star A" and "x = c # w"
  shows "\<exists>u v. w = u @ v \<and> c # u \<in> A \<and> v \<in> star A"
  using assms
proof (induction arbitrary: w rule: star.induct)
  case star_nil
  then show ?case by simp
next
  case (star_app u v)
  show ?case
  proof (cases u)
    case Nil
    with star_app show ?thesis by simp
  next
    case (Cons a u')
    with star_app.prems have "a = c" and "w = u' @ v" by simp_all
    with Cons star_app.hyps show ?thesis by blast
  qed
qed

lemma star_cons:
  "c # w \<in> star A \<longleftrightarrow> (\<exists>u v. w = u @ v \<and> c # u \<in> A \<and> v \<in> star A)"
proof
  assume "c # w \<in> star A"
  then show "\<exists>u v. w = u @ v \<and> c # u \<in> A \<and> v \<in> star A"
    by (rule star_cons_aux) simp
next
  assume "\<exists>u v. w = u @ v \<and> c # u \<in> A \<and> v \<in> star A"
  then obtain u v where "w = u @ v" "c # u \<in> A" "v \<in> star A" by blast
  then show "c # w \<in> star A"
    using star_app [of "c # u" A v] by simp
qed

lemma lang_deriv: "w \<in> lang (deriv c r) \<longleftrightarrow> c # w \<in> lang r"
proof (induction r arbitrary: w)
  case (Seq r s)
  show ?case
  proof (cases "nullable r")
    case True
    then show ?thesis
      using Seq by (auto simp: nullable_iff Cons_eq_append_conv)
  next
    case False
    then show ?thesis
      using Seq by (auto simp: nullable_iff Cons_eq_append_conv)
  qed
next
  case (Rep r)
  then show ?case by (auto simp: star_cons)
qed auto

lemma matches_iff: "matches r s \<longleftrightarrow> s \<in> lang r"
  unfolding matches_def
  by (induction s arbitrary: r) (simp_all add: nullable_iff lang_deriv)

lemma match_prefix_iff: "match_prefix r s \<longleftrightarrow> (\<exists>u v. s = u @ v \<and> u \<in> lang r)"
proof (induction s arbitrary: r)
  case Nil
  then show ?case by (simp add: nullable_iff)
next
  case (Cons c cs)
  note IH = Cons.IH
  show ?case
  proof
    assume "match_prefix r (c # cs)"
    then consider "nullable r" | "match_prefix (deriv c r) cs" by auto
    then show "\<exists>u v. c # cs = u @ v \<and> u \<in> lang r"
    proof cases
      case 1
      then have "c # cs = [] @ (c # cs) \<and> [] \<in> lang r" by (simp add: nullable_iff)
      then show ?thesis by blast
    next
      case 2
      then obtain u v where "cs = u @ v" "u \<in> lang (deriv c r)" using IH by blast
      then have "c # cs = (c # u) @ v \<and> c # u \<in> lang r" by (simp add: lang_deriv)
      then show ?thesis by blast
    qed
  next
    assume "\<exists>u v. c # cs = u @ v \<and> u \<in> lang r"
    then obtain u v where uv: "c # cs = u @ v" "u \<in> lang r" by blast
    show "match_prefix r (c # cs)"
    proof (cases u)
      case Nil
      with uv have "nullable r" by (simp add: nullable_iff)
      then show ?thesis by simp
    next
      case (Cons a u')
      with uv have "cs = u' @ v" "u' \<in> lang (deriv c r)" by (simp_all add: lang_deriv)
      then have "match_prefix (deriv c r) cs" using IH by blast
      then show ?thesis by simp
    qed
  qed
qed

lemma re_search_iff: "re_search r s \<longleftrightarrow> (\<exists>p u v. s = p @ u @ v \<and> u \<in> lang r)"
proof (induction s)
  case Nil
  then show ?case by (simp add: nullable_iff)
next
  case (Cons c cs)
  note IH = Cons.IH
  show ?case
  proof
    assume "re_search r (c # cs)"
    then consider "match_prefix r (c # cs)" | "re_search r cs" by auto
    then show "\<exists>p u v. c # cs = p @ u @ v \<and> u \<in> lang r"
    proof cases
      case 1
      then obtain u v where "c # cs = [] @ u @ v" "u \<in> lang r"
        unfolding match_prefix_iff by auto
      then show ?thesis by blast
    next
      case 2
      then obtain p u v where "cs = p @ u @ v" "u \<in> lang r" using IH by blast
      then have "c # cs = (c # p) @ u @ v \<and> u \<in> lang r" by simp
      then show ?thesis by blast
    qed
  next
    assume "\<exists>p u v. c # cs = p @ u @ v \<and> u \<in> lang r"
    then obtain p u v where puv: "c # cs = p @ u @ v" "u \<in> lang r" by blast
    show "re_search r (c # cs)"
    proof (cases p)
      case Nil
      with puv have "match_prefix r (c # cs)" unfolding match_prefix_iff by auto
      then show ?thesis by simp
    next
      case (Cons a p')
      with puv have "cs = p' @ u @ v" by simp
      with puv(2) have "re_search r cs" using IH by blast
      then show ?thesis by simp
    qed
  qed
qed


section \<open>The log marker\<close>

lemma char_between:
  assumes "lo \<le> c" "c \<le> hi"
  shows "c \<in> set (map char_of [of_char lo ..< Suc (of_char hi) :: nat])"
proof -
  have "char_of (of_char c :: nat) = c" by simp
  moreover have "(of_char c :: nat) \<in> set [of_char lo ..< Suc (of_char hi)]"
    using assms by (auto simp: less_eq_char_def)
  ultimately show ?thesis by (metis image_eqI set_map)
qed

lemma digit_chars: "map char_of [of_char CHR ''0'' ..< Suc (of_char CHR ''9'') :: nat] = ''0123456789''"
  by code_simp

lemma in_cls_digit: "in_cls c [(CHR ''0'', CHR ''9'')] \<longleftrightarrow> ascii_digit c"
proof
  assume "in_cls c [(CHR ''0'', CHR ''9'')]"
  then have "CHR ''0'' \<le> c" "c \<le> CHR ''9''"
    by (simp_all add: in_cls_def in_range_def)
  from char_between [OF this] show "ascii_digit c"
    unfolding digit_chars ascii_digit_def .
next
  assume "ascii_digit c"
  then show "in_cls c [(CHR ''0'', CHR ''9'')]"
    by (auto simp: ascii_digit_def in_cls_def in_range_def less_eq_char_def)
qed

lemma lang_Lit: "w \<in> lang (Lit c) \<longleftrightarrow> w = [c]"
  by (auto simp: Lit_def in_cls_def in_range_def)

lemma lang_digit: "w \<in> lang digit \<longleftrightarrow> (\<exists>d. w = [d] \<and> ascii_digit d)"
  unfolding digit_def using in_cls_digit by auto

lemma lang_rep_n_digit: "w \<in> lang (rep_n n digit) \<longleftrightarrow> digits n w"
proof (induction n arbitrary: w)
  case 0
  then show ?case by (auto simp: digits_def)
next
  case (Suc n)
  show ?case
  proof
    assume "w \<in> lang (rep_n (Suc n) digit)"
    then obtain d v where "w = d # v" "ascii_digit d" "v \<in> lang (rep_n n digit)"
      by (auto simp: lang_digit)
    then show "digits (Suc n) w" using Suc.IH [of v] by (simp add: digits_def)
  next
    assume "digits (Suc n) w"
    then obtain d v where w: "w = d # v" and "ascii_digit d" "digits n v"
      by (cases w) (auto simp: digits_def)
    then have "[d] \<in> lang digit" "v \<in> lang (rep_n n digit)"
      using Suc.IH [of v] by (simp_all add: lang_digit)
    then have "[d] @ v \<in> lang (Seq digit (rep_n n digit))"
      unfolding lang.simps by blast
    then show "w \<in> lang (rep_n (Suc n) digit)" using w by simp
  qed
qed

lemma lang_Lit_Seq: "w \<in> lang (Seq (Lit c) r) \<longleftrightarrow> (\<exists>v. w = [c] @ v \<and> v \<in> lang r)"
  by (auto simp: lang_Lit)

lemma lang_digits_Seq:
  "w \<in> lang (Seq (rep_n n digit) r) \<longleftrightarrow> (\<exists>u v. w = u @ v \<and> digits n u \<and> v \<in> lang r)"
  by (auto simp: lang_rep_n_digit)



lemma conc_Lit_I: "v \<in> lang r \<Longrightarrow> [c] @ v \<in> lang (Seq (Lit c) r)"
  unfolding lang_Lit_Seq by blast

lemma conc_digits_I: "digits n u \<Longrightarrow> v \<in> lang r \<Longrightarrow> u @ v \<in> lang (Seq (rep_n n digit) r)"
  unfolding lang_digits_Seq by blast

lemma lang_specific_log_pattern:
  "w \<in> lang specific_log_pattern \<longleftrightarrow>
     (\<exists>Y M D h m s. digits 4 Y \<and> digits 2 M \<and> digits 2 D \<and> digits 2 h \<and> digits 2 m \<and> digits 2 s \<and>
        w = ''['' @ Y @ ''-'' @ M @ ''-'' @ D @ ''_'' @ h @ ''-'' @ m @ ''-'' @ s @ '']'')"
  (is "?L \<longleftrightarrow> ?R")
proof
  assume ?L
  then obtain v1 Y v2 v3 M v4 v5 D v6 v7 h v8 v9 m v10 v11 s v12 where
    "w = ''['' @ v1" "v1 = Y @ v2" "digits 4 Y" "v2 = ''-'' @ v3" "v3 = M @ v4" "digits 2 M"
    "v4 = ''-'' @ v5" "v5 = D @ v6" "digits 2 D" "v6 = ''_'' @ v7" "v7 = h @ v8" "digits 2 h"
    "v8 = ''-'' @ v9" "v9 = m @ v10" "digits 2 m" "v10 = ''-'' @ v11" "v11 = s @ v12" "digits 2 s"
    "v12 = '']''"
    unfolding specific_log_pattern_def lang_Lit_Seq lang_digits_Seq lang_Lit
    by (elim exE conjE) (rule that; assumption)
  then have "digits 4 Y \<and> digits 2 M \<and> digits 2 D \<and> digits 2 h \<and> digits 2 m \<and> digits 2 s \<and>
        w = ''['' @ Y @ ''-'' @ M @ ''-'' @ D @ ''_'' @ h @ ''-'' @ m @ ''-'' @ s @ '']''"
    by simp
  then show ?R by (intro exI)
next
  assume ?R
  then obtain Y M D h m s where d:
    "digits 4 Y" "digits 2 M" "digits 2 D" "digits 2 h" "digits 2 m" "digits 2 s"
    and w: "w = ''['' @ (Y @ (''-'' @ (M @ (''-'' @ (D @ (''_'' @ (h @ (''-'' @ (m @ (''-'' @ (s @ '']'')))))))))))"
    by (elim exE conjE)
  have "'']'' \<in> lang (Lit CHR '']'')" by (simp add: lang_Lit)
  then show ?L
    unfolding specific_log_pattern_def w
    by (intro conc_Lit_I conc_digits_I d)
qed


text \<open>
  Claim C10.  A line of the complete log is selected for the specific log if and only if it
  contains, anywhere in the line, a substring made of \<^verbatim>\<open>[\<close>, four digits, \<^verbatim>\<open>-\<close>, two digits,
  \<^verbatim>\<open>-\<close>, two digits, \<^verbatim>\<open>_\<close>, two digits, \<^verbatim>\<open>-\<close>, two digits, \<^verbatim>\<open>-\<close>, two digits and \<^verbatim>\<open>]\<close>.
  The match is not anchored to the start of the line, and the digits need not form a date
  or a time of day: month 99 or minute 61 is selected all the same.
\<close>

theorem log_line_selected_iff:
  "(log_line_selected line \<longleftrightarrow>
      (\<exists>pre Y M D h m s post.
         digits 4 Y \<and> digits 2 M \<and> digits 2 D \<and> digits 2 h \<and> digits 2 m \<and> digits 2 s \<and>
         line = pre @ (''['' @ Y @ ''-'' @ M @ ''-'' @ D @ ''_'' @ h @ ''-'' @ m @ ''-'' @ s @ '']'') @ post))
   \<and> log_line_selected ''[9999-99-99_99-99-99]''
   \<and> log_line_selected ''step 3 [2024-02-30_25-61-61] done''"
proof (intro conjI)
  show "log_line_selected line \<longleftrightarrow>
      (\<exists>pre Y M D h m s post.
         digits 4 Y \<and> digits 2 M \<and> digits 2 D \<and> digits 2 h \<and> digits 2 m \<and> digits 2 s \<and>
         line = pre @ (''['' @ Y @ ''-'' @ M @ ''-'' @ D @ ''_'' @ h @ ''-'' @ m @ ''-'' @ s @ '']'') @ post)"
    unfolding log_line_selected_def re_search_iff lang_specific_log_pattern by blast
  show "log_line_selected ''[9999-99-99_99-99-99]''"
    by code_simp
  show "log_line_selected ''step 3 [2024-02-30_25-61-61] done''"
    by code_simp
qed

section \<open>The image-name validator\<close>

text \<open>
  Claim C4.  The validator accepts \<^verbatim>\<open>ubuntu:22.04\<close> and \<^verbatim>\<open>myrepo/ros2-humble\<close> and rejects
  \<^verbatim>\<open>UPPER:tag\<close> and \<^verbatim>\<open>repo//x\<close>, as the claim says.  The claim also says that every string
  with whitespace in it is rejected; but \<^verbatim>\<open>$\<close> also matches just before a final newline, so
  the name \<^verbatim>\<open>ubuntu\<close> followed by a newline is accepted.
\<close>

theorem is_valid_docker_img_name_examples:
  "is_valid_docker_img_name ''ubuntu:22.04''
   \<and> is_valid_docker_img_name ''myrepo/ros2-humble''
   \<and> \<not> is_valid_docker_img_name ''UPPER:tag''
   \<and> \<not> is_valid_docker_img_name ''repo//x''
   \<and> is_valid_docker_img_name (''ubuntu'' @ [newline])"
  by code_simp


section \<open>The build command\<close>

lemma path_str_slash: "\<exists>t. path_str p = CHR ''/'' # t"
  by (cases p) (auto simp: path_str_def)

lemma path_str_not_pull: "path_str p \<noteq> ''--pull''"
  using path_str_slash [of p] by auto

lemmas make_cmd_defs = ros_make_cmd_def sensor_make_cmd_def Let_def add_flags_def
  ros_build_args_def ros_labels_def sensor_arguments_def sensor_labels_def value_flags_def

lemma ros_build_arg_keys:
  "map key_of (flag_values ''--build-arg'' (snd (ros_make_cmd w a d c))) =
     [''BASE_IMG'', ''REQUESTED_USER'', ''REQUESTED_USER_HOME'', ''ROS_DISTRO'', ''ROS_VERSION'']"
  by (simp add: make_cmd_defs key_of_def)

lemma ros_label_keys:
  "map key_of (flag_values ''--label'' (snd (ros_make_cmd w a d c))) =
     [''org.opencontainers.image.created'', ''org.opencontainers.image.title'',
      ''org.opencontainers.image.authors'', ''org.opencontainers.image.description'']"
  by (simp add: make_cmd_defs key_of_def)

lemma sensor_cmd_keys:
  assumes "\<not> arg_pull a"
  shows "\<exists>cmd. sensor_make_cmd w a d f = ([], Inr cmd) \<and>
     map key_of (flag_values ''--build-arg'' cmd) = [''UBUNTU_VERSION'', ''ROS_DISTRO'', ''ROS_VERSION''] \<and>
     map key_of (flag_values ''--label'' cmd) =
       [''org.opencontainers.image.created'', ''org.opencontainers.image.title'',
        ''org.opencontainers.image.description'', ''org.opencontainers.image.authors''] \<and>
     ''--pull'' \<notin> set (switches cmd)"
  using assms path_str_not_pull [of "parent f"]
  by (simp add: make_cmd_defs key_of_def)

lemma ros_switches:
  "switches (snd (ros_make_cmd w a d c)) =
     [''docker'', ''build'', ''--progress=plain''] @ (if arg_pull a then [''--pull''] else [])
      @ (if arg_cache a then [] else [''--no-cache'']) @ [path_str c]"
  by (simp add: make_cmd_defs)

lemma ros_pull_switch: "''--pull'' \<in> set (switches (snd (ros_make_cmd w a d c))) \<longleftrightarrow> arg_pull a"
  using path_str_not_pull [of c] by (auto simp: ros_switches)

lemma ros_pull_notice:
  "fst (ros_make_cmd w a d c) =
     [if arg_pull a then PullSpecified (base_img d)
      else if img_exists_locally w (base_img d) then UsingLocalBaseImage (base_img d)
      else BaseImageNotFoundLocally (base_img d)]"
  by (simp add: make_cmd_defs)

lemma key_lists_sorted:
  "sorted [''BASE_IMG'', ''REQUESTED_USER'', ''REQUESTED_USER_HOME'', ''ROS_DISTRO'', ''ROS_VERSION'']"
  "\<not> sorted [''org.opencontainers.image.created'', ''org.opencontainers.image.title'',
      ''org.opencontainers.image.authors'', ''org.opencontainers.image.description'']"
  "\<not> sorted [''UBUNTU_VERSION'', ''ROS_DISTRO'', ''ROS_VERSION'']"
  "\<not> sorted [''org.opencontainers.image.created'', ''org.opencontainers.image.title'',
        ''org.opencontainers.image.description'', ''org.opencontainers.image.authors'']"
  by code_simp+

text \<open>
  Claim C6 says that the \<^verbatim>\<open>--build-arg\<close> flags and the \<^verbatim>\<open>--label\<close> flags of every command line are
  sorted by key.  The scripts do not sort: the flags follow the order in which the two
  dictionaries are written.  For the labels of \<^verbatim>\<open>ros_base_imgs/build.py\<close> that order is
  created, title, authors, description, which is not sorted.
\<close>

theorem label_flags_not_sorted:
  "\<not> sorted (map key_of (flag_values ''--label''
        (snd (ros_make_cmd sample_world sample_args sample_derived (tmp_dir sample_world)))))"
  unfolding ros_label_keys by (rule key_lists_sorted)

text \<open>
  Claim C6, amended.  In every command line the flags come in the insertion order of the
  dictionary: \<^verbatim>\<open>BASE_IMG\<close>, \<^verbatim>\<open>REQUESTED_USER\<close>, \<^verbatim>\<open>REQUESTED_USER_HOME\<close>, \<^verbatim>\<open>ROS_DISTRO\<close>, \<^verbatim>\<open>ROS_VERSION\<close>
  (which is sorted) and the labels created, title, authors, description in
  \<^verbatim>\<open>ros_base_imgs/build.py\<close>; \<^verbatim>\<open>UBUNTU_VERSION\<close>, \<^verbatim>\<open>ROS_DISTRO\<close>, \<^verbatim>\<open>ROS_VERSION\<close> and the labels
  created, title, description, authors in \<^verbatim>\<open>sensor_imgs/build.py\<close> whenever that script builds
  a command.
\<close>

theorem flags_in_insertion_order:
  "map key_of (flag_values ''--build-arg'' (snd (ros_make_cmd w a d c))) =
     [''BASE_IMG'', ''REQUESTED_USER'', ''REQUESTED_USER_HOME'', ''ROS_DISTRO'', ''ROS_VERSION'']
   \<and> map key_of (flag_values ''--label'' (snd (ros_make_cmd w a d c))) =
     [''org.opencontainers.image.created'', ''org.opencontainers.image.title'',
      ''org.opencontainers.image.authors'', ''org.opencontainers.image.description'']
   \<and> (\<not> arg_pull a \<longrightarrow>
        (\<exists>cmd. snd (sensor_make_cmd w a d f) = Inr cmd \<and>
           map key_of (flag_values ''--build-arg'' cmd) =
             [''UBUNTU_VERSION'', ''ROS_DISTRO'', ''ROS_VERSION''] \<and>
           map key_of (flag_values ''--label'' cmd) =
             [''org.opencontainers.image.created'', ''org.opencontainers.image.title'',
              ''org.opencontainers.image.description'', ''org.opencontainers.image.authors'']))
   \<and> sorted (map key_of (flag_values ''--build-arg'' (snd (ros_make_cmd w a d c))))"
  using ros_build_arg_keys [of w a d c] ros_label_keys [of w a d c] sensor_cmd_keys [of a w d f]
    key_lists_sorted(1)
  by auto

theorem flags_in_insertion_order_witness:
  "\<not> arg_pull sample_args \<and>
   (\<exists>cmd. snd (sensor_make_cmd sample_world sample_args sample_derived
                 [''opt'', ''sensor'', ''Dockerfile'']) = Inr cmd \<and>
      map key_of (flag_values ''--build-arg'' cmd) =
        [''UBUNTU_VERSION'', ''ROS_DISTRO'', ''ROS_VERSION''])"
  using flags_in_insertion_order [of sample_world sample_args sample_derived "tmp_dir sample_world"
      "[''opt'', ''sensor'', ''Dockerfile'']"]
  by (auto simp: sample_args_def)

text \<open>
  Claim C7 says that an invocation without \<^verbatim>\<open>--pull\<close> prints a notice when the base image has
  no local copy.  \<^verbatim>\<open>sensor_imgs/build.py\<close> has no such branch: it never asks for the local
  images, and a run without \<^verbatim>\<open>--pull\<close> in a world without any local image prints the
  announcement of the build, the command and the result only.
\<close>

theorem sensor_prints_no_notice:
  "\<not> arg_pull sample_args
   \<and> \<not> img_exists_locally sample_world ''ubuntu:22.04''
   \<and> fst (sensor_make_cmd sample_world sample_args sample_derived
             [''opt'', ''sensor'', ''Dockerfile'']) = []
   \<and> console (snd (main_sensor sample_world sample_args sample_state)) =
       [BuildingImage ''ros:humble'',
        ExecutingCommand
          [''docker'', ''build'', ''--file'', ''/opt/sensor/Dockerfile'', ''--progress=plain'',
           ''--no-cache'', ''--build-arg'', ''UBUNTU_VERSION=22.04'', ''--build-arg'',
           ''ROS_DISTRO=humble'', ''--build-arg'', ''ROS_VERSION=2'', ''--label'',
           ''org.opencontainers.image.created=2024-01-01T00:00:00+00:00'', ''--label'',
           ''org.opencontainers.image.title=t'', ''--label'',
           ''org.opencontainers.image.description=d'', ''--label'',
           ''org.opencontainers.image.authors=me'', ''--tag'', ''ros:humble'', ''/opt/sensor''],
        BuildSuccess ''ros:humble'']"
  by code_simp

text \<open>
  Claim C7, amended.  In \<^verbatim>\<open>ros_base_imgs/build.py\<close> the command has the switch \<^verbatim>\<open>--pull\<close> exactly
  when pull was requested, whatever the local images are; the notice printed is the one
  about pulling when pull was requested, the one about the local image when it was not and a
  local copy exists, and the one that Docker will fetch the image when it was not and no
  local copy exists; a local copy exists exactly when the inspect query returns 0, so a
  failing query means absent and raises nothing.  In \<^verbatim>\<open>sensor_imgs/build.py\<close> a run without
  \<^verbatim>\<open>--pull\<close> makes no query, prints no notice while it builds the command and adds no flag.
\<close>

theorem pull_policy:
  "(''--pull'' \<in> set (switches (snd (ros_make_cmd w a d c))) \<longleftrightarrow> arg_pull a)
   \<and> fst (ros_make_cmd w a d c) =
       [if arg_pull a then PullSpecified (base_img d)
        else if img_exists_locally w (base_img d) then UsingLocalBaseImage (base_img d)
        else BaseImageNotFoundLocally (base_img d)]
   \<and> (img_exists_locally w img \<longleftrightarrow> docker_image_inspect w img = 0)
   \<and> (\<not> arg_pull a \<longrightarrow>
        (\<exists>cmd. sensor_make_cmd w a d f = ([], Inr cmd) \<and> ''--pull'' \<notin> set (switches cmd)))"
  using ros_pull_switch [of w a d c] ros_pull_notice [of w a d c] sensor_cmd_keys [of a w d f]
  by (auto simp: img_exists_locally_def)

theorem pull_policy_witness:
  "\<not> arg_pull sample_args \<and>
   (\<exists>cmd. sensor_make_cmd sample_world sample_args sample_derived [''opt'', ''sensor'', ''Dockerfile'']
             = ([], Inr cmd) \<and> ''--pull'' \<notin> set (switches cmd))
   \<and> fst (ros_make_cmd sample_world sample_args sample_derived (tmp_dir sample_world)) =
       [BaseImageNotFoundLocally ''ubuntu:22.04'']"
  using pull_policy [of sample_world sample_args sample_derived "tmp_dir sample_world"
      "''ubuntu:22.04''" "[''opt'', ''sensor'', ''Dockerfile'']"]
  by (auto simp: sample_args_def sample_derived_def sample_world_def img_exists_locally_def)


section \<open>Rendering a template into the context\<close>

lemma scan_text: "CHR ''{'' \<notin> set t \<Longrightarrow> scan False acc t = Some [Text (acc @ t)]"
proof (induction t arbitrary: acc)
  case Nil
  then show ?case by simp
next
  case (Cons c t)
  then show ?case by (cases t) auto
qed

lemma scan_to_open:
  "CHR ''{'' \<notin> set t \<Longrightarrow>
     scan False acc (t @ CHR ''{'' # CHR ''{'' # rest) = map_option ((#) (Text (acc @ t))) (scan True [] rest)"
proof (induction t arbitrary: acc)
  case Nil
  then show ?case by simp
next
  case (Cons c t)
  then show ?case by (cases t) auto
qed

lemma scan_to_close:
  "CHR ''}'' \<notin> set v \<Longrightarrow>
     scan True acc (v @ CHR ''}'' # CHR ''}'' # rest) = map_option ((#) (Var (py_strip (acc @ v)))) (scan False [] rest)"
proof (induction v arbitrary: acc)
  case Nil
  then show ?case by simp
next
  case (Cons c v)
  then show ?case by (cases v) auto
qed

lemma chop_newline_template:
  "chop_newline (t1 @ CHR ''{'' # CHR ''{'' # v @ CHR ''}'' # CHR ''}'' # t2) =
     t1 @ CHR ''{'' # CHR ''{'' # v @ CHR ''}'' # CHR ''}'' # chop_newline t2"
  by (cases "t2 = []") (auto simp: chop_newline_def newline_def butlast_append)

lemma chop_newline_set: "set (chop_newline t) \<subseteq> set t"
  by (auto simp: chop_newline_def dest: in_set_butlastD)

lemma jinja2_default_absent:
  assumes "CHR ''{'' \<notin> set t1" "CHR ''}'' \<notin> set v" "CHR ''{'' \<notin> set t2"
    and "map_of d (py_strip v) = None"
  shows "jinja2_default (t1 @ ''{{'' @ v @ ''}}'' @ t2) (PDict d) = Inr (t1 @ chop_newline t2)"
proof -
  have "CHR ''{'' \<notin> set (chop_newline t2)" using assms(3) chop_newline_set by blast
  then have "scan False [] (t1 @ ''{{'' @ v @ ''}}'' @ chop_newline t2)
      = Some [Text t1, Var (py_strip v), Text (chop_newline t2)]"
    using assms(1,2) by (simp add: scan_to_open scan_to_close scan_text)
  then show ?thesis
    using assms(4) by (simp add: jinja2_default_def chop_newline_template)
qed

lemmas action_defs = skip_def emit_def throw_def fs_op_def require_def mkdir_parent_if_missing_def
  render_to_def chmod_by_def

lemma stage_item_render:
  assumes "\<not> is_absolute src"
    and "files s (joinpath (root_path w) src) = Some (File template k)"
    and "is_dir (files s) (parent (joinpath c key))"
    and "\<not> is_dir (files s) (joinpath c key)"
  shows "stage_item w c key [PStr src, PDict x, ex] s =
     (case jinja_render w template (PDict x) of
        Inl e \<Rightarrow> (Some e, s\<lparr>console := console s @ [CreatingFile (path_str (joinpath c key))]\<rparr>)
      | Inr rendered \<Rightarrow>
          (None, s\<lparr>console := console s @ [CreatingFile (path_str (joinpath c key))],
                   files := (files s)(joinpath c key \<mapsto>
                      File rendered (if truthy ex then mode_775 else mode_664))\<rparr>))"
proof -
  obtain m where par: "files s (parent (joinpath c key)) = Some (Dir m)"
    using assms(3) by (auto simp: is_dir_def split: option.splits node.splits)
  consider (absent) "files s (joinpath c key) = None"
    | (present) t n where "files s (joinpath c key) = Some (File t n)"
    using assms(4) by (cases "files s (joinpath c key)") (auto simp: is_dir_def split: node.splits)
  then show ?thesis
  proof cases
    case absent
    show ?thesis
      by (cases "jinja_render w template (PDict x)")
        (simp_all add: stage_item_def Let_def action_defs is_file_def is_dir_def write_text_def
          chmod_def assms(1,2) par absent)
  next
    case present
    show ?thesis
      by (cases "jinja_render w template (PDict x)")
        (simp_all add: stage_item_def Let_def action_defs is_file_def is_dir_def write_text_def
          chmod_def assms(1,2) par present)
  qed
qed

lemma install_item_render:
  assumes "files s (joinpath (root_path w) src) = Some (File template k)"
    and "is_dir (files s) (parent (joinpath c key))"
    and "\<not> is_dir (files s) (joinpath c key)"
  shows "install_item w c key [PStr src, PDict x, ex] s =
     (case jinja_render w template (PDict x) of
        Inl e \<Rightarrow> (Some e, s\<lparr>console := console s @ [CreatingFile (path_str (joinpath c key))]\<rparr>)
      | Inr rendered \<Rightarrow>
          (None, s\<lparr>console := console s @ [CreatingFile (path_str (joinpath c key))],
                   files := (files s)(joinpath c key \<mapsto>
                      File rendered (if truthy ex then mode_775 else mode_664))\<rparr>))"
proof -
  obtain m where par: "files s (parent (joinpath c key)) = Some (Dir m)"
    using assms(2) by (auto simp: is_dir_def split: option.splits node.splits)
  consider (absent) "files s (joinpath c key) = None"
    | (present) t n where "files s (joinpath c key) = Some (File t n)"
    using assms(3) by (cases "files s (joinpath c key)") (auto simp: is_dir_def split: node.splits)
  then show ?thesis
  proof cases
    case absent
    show ?thesis
      by (cases "jinja_render w template (PDict x)")
        (simp_all add: install_item_def Let_def action_defs is_file_def is_dir_def write_text_def
          chmod_def assms(1) par absent)
  next
    case present
    show ?thesis
      by (cases "jinja_render w template (PDict x)")
        (simp_all add: install_item_def Let_def action_defs is_file_def is_dir_def write_text_def
          chmod_def assms(1) par present)
  qed
qed

text \<open>
  Claim C2 says that a template that uses a variable absent from its context makes rendering
  fail, and that no output file is written then.  The template \<^verbatim>\<open>FROM {{ base_img }}\<close> with a
  context that has no \<^verbatim>\<open>base_img\<close> is staged without any error by both scripts, and the file
  written reads \<^verbatim>\<open>FROM\<close> followed by a space.
\<close>

theorem absent_variable_renders_empty:
  "staged [[''tmp'', ''context_x'', ''Dockerfile'']]
     (stage_loop sample_world manifest_missing_variable [''tmp'', ''context_x''] staging_state) =
     (None, [CreatingFile ''/tmp/context_x/Dockerfile''], [Some (File ''FROM '' mode_664)])
   \<and> staged [[''tmp'', ''context_x'', ''Dockerfile'']]
     (install_items sample_world manifest_missing_variable [''tmp'', ''context_x''] staging_state) =
     (None, [CreatingFile ''/tmp/context_x/Dockerfile''], [Some (File ''FROM '' mode_664)])"
  by code_simp

text \<open>
  Claim C2, amended.  A manifest entry that renders a template (its source is a file, its
  context a dictionary, the parent of its destination a directory and the destination not
  one) is staged like this by both scripts, whatever the template engine: when the engine
  raises, the exception ends the staging and the file system is as before (nothing is
  written to the destination); when it returns a text, that text is written to the
  destination with the mode of the entry.  And the engine as the scripts configure it does
  not raise for an absent variable: a template with one expression \<^verbatim>\<open>{{ name }}\<close> whose name
  the context lacks renders to the text around the expression.
\<close>

theorem rendering_is_not_strict:
  assumes "\<not> is_absolute src"
    and "files s (joinpath (root_path w) src) = Some (File template k)"
    and "is_dir (files s) (parent (joinpath c key))"
    and "\<not> is_dir (files s) (joinpath c key)"
  shows "stage_item w c key [PStr src, PDict x, ex] s =
          (case jinja_render w template (PDict x) of
             Inl e \<Rightarrow> (Some e, s\<lparr>console := console s @ [CreatingFile (path_str (joinpath c key))]\<rparr>)
           | Inr rendered \<Rightarrow>
               (None, s\<lparr>console := console s @ [CreatingFile (path_str (joinpath c key))],
                        files := (files s)(joinpath c key \<mapsto>
                           File rendered (if truthy ex then mode_775 else mode_664))\<rparr>))
       \<and> install_item w c key [PStr src, PDict x, ex] s = stage_item w c key [PStr src, PDict x, ex] s
       \<and> (CHR ''{'' \<notin> set t1 \<and> CHR ''}'' \<notin> set v \<and> CHR ''{'' \<notin> set t2 \<and> is_identifier (py_strip v) \<and>
            map_of x (py_strip v) = None \<longrightarrow>
            jinja2_default (t1 @ ''{{'' @ v @ ''}}'' @ t2) (PDict x) = Inr (t1 @ chop_newline t2))"
  using stage_item_render [OF assms] install_item_render [OF assms(2-4)]
    jinja2_default_absent [of t1 v t2 x]
  by simp

theorem rendering_is_not_strict_witness:
  "stage_item sample_world [''tmp'', ''context_x''] ''Dockerfile''
      [PStr ''Dockerfile.j2'', PDict [(''use_environment'', SBool True)], PBool False] staging_state =
     (None, staging_state\<lparr>console := console staging_state @ [CreatingFile ''/tmp/context_x/Dockerfile''],
              files := (files staging_state)([''tmp'', ''context_x'', ''Dockerfile''] \<mapsto>
                 File ''FROM '' mode_664)\<rparr>)
   \<and> jinja2_default ''FROM {{ base_img }}'' (PDict [(''use_environment'', SBool True)]) = Inr ''FROM ''"
proof -
  have h1: "\<not> is_absolute ''Dockerfile.j2''"
    by code_simp
  have h2: "files staging_state (joinpath (root_path sample_world) ''Dockerfile.j2'') =
      Some (File ''FROM {{ base_img }}'' mode_664)"
    by code_simp
  have h3: "is_dir (files staging_state) (parent (joinpath [''tmp'', ''context_x''] ''Dockerfile''))"
    by code_simp
  have h4: "\<not> is_dir (files staging_state) (joinpath [''tmp'', ''context_x''] ''Dockerfile'')"
    by code_simp
  have h5: "CHR ''{'' \<notin> set ''FROM '' \<and> CHR ''}'' \<notin> set '' base_img '' \<and> CHR ''{'' \<notin> set [] \<and>
      is_identifier (py_strip '' base_img '') \<and>
      map_of [(''use_environment'', SBool True)] (py_strip '' base_img '') = None"
    by code_simp
  have e: "jinja_render sample_world ''FROM {{ base_img }}'' (PDict [(''use_environment'', SBool True)])
      = Inr ''FROM ''"
    by code_simp
  have p: "joinpath [''tmp'', ''context_x''] ''Dockerfile'' = [''tmp'', ''context_x'', ''Dockerfile'']"
    "path_str [''tmp'', ''context_x'', ''Dockerfile''] = ''/tmp/context_x/Dockerfile''"
    by code_simp+
  show ?thesis
    using rendering_is_not_strict [OF h1 h2 h3 h4,
        of "[(''use_environment'', SBool True)]" "PBool False" "''FROM ''" "'' base_img ''" "[]"] h5
    by (simp add: e p chop_newline_def)
qed

section \<open>Invalid manifest entries\<close>

text \<open>
  In \<^verbatim>\<open>ros_base_imgs/build.py\<close> an entry whose source is missing, or whose context is not a
  dictionary, ends the program with exit code 1 before anything is written to its
  destination, and the loop goes no further.
\<close>

lemma for_keys_stops:
  "map_of items k = Some item \<Longrightarrow> body k item s = (Some e, s') \<Longrightarrow>
     for_keys body items (k # ks) s = (Some e, s')"
  by simp

lemma stage_item_missing_source:
  assumes "\<not> is_absolute src" and "files s (joinpath (root_path w) src) = None"
  shows "stage_item w c key (PStr src # rest) s =
     (Some (SystemExit 1),
      s\<lparr>console := console s @ [RequiredResourceMissing (path_str (joinpath (root_path w) src))]\<rparr>)"
  using assms by (simp add: stage_item_def Let_def action_defs)

lemma stage_item_bad_context:
  assumes "\<not> is_absolute src" and "files s (joinpath (root_path w) src) = Some (File template k)"
    and "files s (parent (joinpath c key)) \<noteq> None"
    and "\<not> is_dict x"
  shows "fst (stage_item w c key [PStr src, x, ex] s) = Some (SystemExit 1)
     \<and> files (snd (stage_item w c key [PStr src, x, ex] s)) = files s"
proof -
  obtain y where par: "files s (parent (joinpath c key)) = Some y"
    using assms(3) by blast
  show ?thesis
    using assms(1,2,4)
    by (cases x) (simp_all add: stage_item_def Let_def action_defs is_file_def par)
qed

text \<open>
  Claim C5 says the same of every stager.  \<^verbatim>\<open>install_items\<close> of \<^verbatim>\<open>create_docker_files.py\<close> prints
  the message about the context and goes on: given the empty string in place of the
  dictionary it renders the template with \<^verbatim>\<open>dict("")\<close>, the empty dictionary, writes the
  destination and stages the next entry.  The loop of \<^verbatim>\<open>build.py\<close> stops at that entry of the
  same manifest with exit code 1 and writes nothing.
\<close>

theorem install_items_continues_after_bad_context:
  "staged [[''tmp'', ''context_x'', ''Dockerfile''], [''tmp'', ''context_x'', ''entrypoint.sh'']]
     (install_items sample_world manifest_bad_context [''tmp'', ''context_x''] staging_state) =
     (None,
      [CreatingFile ''/tmp/context_x/Dockerfile'', ContextNotDict ''/tmp/context_x/Dockerfile'',
       CreatingFile ''/tmp/context_x/entrypoint.sh''],
      [Some (File ''FROM '' mode_664), Some (File ''exec bash'' mode_775)])
   \<and> staged [[''tmp'', ''context_x'', ''Dockerfile''], [''tmp'', ''context_x'', ''entrypoint.sh'']]
     (stage_loop sample_world manifest_bad_context [''tmp'', ''context_x''] staging_state) =
     (Some (SystemExit 1),
      [CreatingFile ''/tmp/context_x/Dockerfile'', ContextNotDict ''/tmp/context_x/Dockerfile''],
      [None, None])"
  by code_simp

section \<open>What comes before the build only prints\<close>

lemma fail_with_cases:
  "fail_with msg s = (r, s') \<Longrightarrow> r = Inl (SystemExit 1) \<and> files s' = files s"
  by (auto simp: fail_with_def)

lemma derive_result:
  assumes "derive a s = (r, s')"
  shows "files s' = files s \<and> (\<forall>e. r = Inl e \<longrightarrow> e = SystemExit 1 \<or> e = ValueError)"
  using assms
  by (auto simp: derive_def Let_def dest!: fail_with_cases split: option.splits list.splits if_splits)

lemma read_required_result:
  assumes "read_required f s = (r, s')"
  shows "files s' = files s \<and> (\<forall>e. r = Inl e \<longrightarrow> e = SystemExit 1)"
  using assms
  by (auto simp: read_required_def dest!: fail_with_cases split: option.splits node.splits if_splits)

lemma add_entrypoint_result:
  assumes "add_entrypoint w a items s = (r, s')"
  shows "files s' = files s \<and> (\<forall>e. r = Inl e \<longrightarrow> e = SystemExit 1)"
  using assms
  by (auto simp: add_entrypoint_def dest!: fail_with_cases split: option.splits if_splits)

lemma add_environment_result:
  assumes "add_environment w a d items s = (r, s')"
  shows "files s' = files s \<and> (\<forall>e. r = Inl e \<longrightarrow> e = SystemExit 1)"
  using assms
  by (auto simp: add_environment_def dest!: fail_with_cases split: option.splits if_splits)

lemma items_to_use_result:
  assumes "items_to_use w a d p v s = (r, s')"
  shows "files s' = files s \<and> (\<forall>e. r = Inl e \<longrightarrow> e = SystemExit 1)"
proof (cases "add_entrypoint w a (add_ros2_items d (base_items a d p v)) s")
  case (Pair r1 s1)
  note f = add_entrypoint_result [OF Pair]
  show ?thesis
  proof (cases r1)
    case (Inl e)
    with Pair assms f show ?thesis by (auto simp: items_to_use_def)
  next
    case (Inr items)
    with Pair assms have "add_environment w a d items s1 = (r, s')" by (simp add: items_to_use_def)
    from add_environment_result [OF this] f show ?thesis by simp
  qed
qed

lemma prepare_result:
  assumes "prepare w a s = (r, s')"
  shows "files s' = files s \<and> (\<forall>e. r = Inl e \<longrightarrow> e = SystemExit 1 \<or> e = ValueError)"
proof (cases "derive a s")
  case (Pair r1 s1)
  note f1 = derive_result [OF Pair]
  show ?thesis
  proof (cases r1)
    case (Inl e)
    with Pair assms f1 show ?thesis by (auto simp: prepare_def)
  next
    case (Inr d)
    show ?thesis
    proof (cases "read_required (joinpath (root_path w) (''packages_ros'' @ ros_version d @ ''.txt'')) s1")
      case (Pair r2 s2)
      note P2 = this
      note f2 = read_required_result [OF Pair]
      show ?thesis
      proof (cases r2)
        case (Inl e)
        with \<open>derive a s = (r1, s1)\<close> \<open>r1 = Inr d\<close> P2 assms f1 f2 show ?thesis
          by (auto simp: prepare_def)
      next
        case (Inr p)
        note r2 = this
        show ?thesis
        proof (cases "read_required (joinpath (root_path w) (''env_vars_ros'' @ ros_version d @ ''.txt'')) s2")
          case (Pair r3 s3)
          note P3 = this
          note f3 = read_required_result [OF Pair]
          show ?thesis
          proof (cases r3)
            case (Inl e)
            with \<open>derive a s = (r1, s1)\<close> \<open>r1 = Inr d\<close> P2 r2 P3 assms f1 f2 f3 show ?thesis
              by (auto simp: prepare_def)
          next
            case (Inr v)
            note r3 = this
            obtain r4 s4 where P4: "items_to_use w a d p v s3 = (r4, s4)"
              by (cases "items_to_use w a d p v s3")
            note f4 = items_to_use_result [OF P4]
            from \<open>derive a s = (r1, s1)\<close> \<open>r1 = Inr d\<close> P2 r2 P3 r3 P4 assms f1 f2 f3 f4
            show ?thesis
              by (cases r4) (auto simp: prepare_def)
          qed
        qed
      qed
    qed
  qed
qed

section \<open>The exit code\<close>

lemma run_coded_append:
  "run_coded (as @ bs) code s =
     (case run_coded as code s of
        (Some e, code', s') \<Rightarrow> (Some e, code', s')
      | (None, code', s') \<Rightarrow> run_coded bs code' s')"
  by (induction as arbitrary: code s) (auto split: prod.splits option.splits)

lemma run_coded_lifts: "fst (snd (run_coded (map lift as) code s)) = code"
  by (induction as arbitrary: s) (auto simp: lift_def split: prod.splits option.splits)

lemma run_and_log_zero:
  assumes "fst (snd (run_and_log w img code s)) = 0" and "code \<noteq> 0"
  shows "\<exists>lines. docker_build w = Exited lines 0"
proof (cases "docker_build w")
  case (Exited lines rc)
  show ?thesis
  proof (cases "rc = 0")
    case True
    with Exited show ?thesis by simp
  next
    case False
    with Exited assms show ?thesis
      by (auto simp: run_and_log_def Let_def split: prod.splits option.splits)
  qed
next
  case (Interrupted lines)
  with assms show ?thesis
    by (auto simp: run_and_log_def Let_def split: prod.splits option.splits)
qed

lemma build_in_context_split:
  "build_in_context w a d items c =
     run_coded (map lift
        [emit (CreatedContextDir (path_str c)), stage_loop w items c,
         run (map emit (fst (ros_make_cmd w a d c))), emit (BuildingImage (img_id_to_build d)),
         emit (ExecutingCommand (snd (ros_make_cmd w a d c)))]
       @ [run_and_log w (img_id_to_build d)])"
  by (simp add: build_in_context_def)

lemma run_coded_single: "run_coded [a] code s = a code s"
  by (cases "a code s") (auto split: option.splits)

lemma build_in_context_zero:
  assumes "fst (snd (build_in_context w a d items c code s)) = 0" and "code \<noteq> 0"
  shows "\<exists>lines. docker_build w = Exited lines 0"
proof -
  let ?as = "[emit (CreatedContextDir (path_str c)), stage_loop w items c,
      run (map emit (fst (ros_make_cmd w a d c))), emit (BuildingImage (img_id_to_build d)),
      emit (ExecutingCommand (snd (ros_make_cmd w a d c)))]"
  obtain e code' s' where r: "run_coded (map lift ?as) code s = (e, code', s')"
    using prod_cases3 by blast
  have c: "code' = code"
    using run_coded_lifts [of ?as code s] unfolding r by simp
  have eq: "build_in_context w a d items c code s =
      (case (e, code', s') of
         (Some e, code', s') \<Rightarrow> (Some e, code', s')
       | (None, code', s') \<Rightarrow> run_and_log w (img_id_to_build d) code' s')"
    unfolding build_in_context_split run_coded_append r run_coded_single ..
  show ?thesis
  proof (cases e)
    case (Some x)
    then show ?thesis using assms c unfolding eq by simp
  next
    case None
    then have "fst (snd (run_and_log w (img_id_to_build d) code s')) = 0"
      using assms(1) c unfolding eq by simp
    then show ?thesis using run_and_log_zero assms(2) by blast
  qed
qed

lemma handle_and_exit_code: "fst (handle_and_exit (e, code, s)) = code"
  by (cases e) (auto simp: handle_and_exit_def split: exn.splits)

lemma handle_and_exit_files: "files (snd (handle_and_exit (e, code, s))) = files s"
  by (cases e) (auto simp: handle_and_exit_def split: exn.splits)

lemma main_build_zero:
  assumes "fst (main_build w a s) = 0"
  shows "\<exists>lines. docker_build w = Exited lines 0"
proof (cases "prepare w a s")
  case (Pair r s')
  show ?thesis
  proof (cases r)
    case (Inl e)
    with Pair prepare_result have "e = SystemExit 1 \<or> e = ValueError" by blast
    with Pair Inl assms show ?thesis by (auto simp: main_build_def uncaught_def)
  next
    case (Inr di)
    obtain d items where di: "di = (d, items)" by (cases di)
    let ?s = "s'\<lparr>files := (files s')(tmp_dir w \<mapsto> Dir mode_700)\<rparr>"
    obtain e code t where b: "build_in_context w a d items (tmp_dir w) 1 ?s = (e, code, t)"
      using prod_cases3 by blast
    with Pair Inr di assms have "code = 0"
      by (simp add: main_build_def with_temporary_directory_def handle_and_exit_code)
    with b have "fst (snd (build_in_context w a d items (tmp_dir w) 1 ?s)) = 0" by simp
    then show ?thesis by (rule build_in_context_zero) simp
  qed
qed

section \<open>The temporary directory\<close>

lemma main_build_removes_context:
  assumes "prefix (tmp_dir w) q" and "files s q = None"
  shows "files (snd (main_build w a s)) q = None"
proof (cases "prepare w a s")
  case (Pair r s')
  then have f: "files s' = files s" using prepare_result by blast
  show ?thesis
  proof (cases r)
    case (Inl e)
    with Pair f assms show ?thesis by (simp add: main_build_def)
  next
    case (Inr di)
    obtain d items where di: "di = (d, items)" by (cases di)
    let ?s = "s'\<lparr>files := (files s')(tmp_dir w \<mapsto> Dir mode_700)\<rparr>"
    obtain e code t where b: "build_in_context w a d items (tmp_dir w) 1 ?s = (e, code, t)"
      using prod_cases3 by blast
    with Pair Inr di assms(1) show ?thesis
      by (simp add: main_build_def with_temporary_directory_def handle_and_exit_files
          remove_tree_def)
  qed
qed

section \<open>Properties of the file system that staging keeps\<close>

lemma keepsI: "(\<And>s. P (files s) \<Longrightarrow> P (files (snd (a s)))) \<Longrightarrow> keeps P a"
  by (simp add: keeps_def)

lemma keepsD: "keeps P a \<Longrightarrow> P (files s) \<Longrightarrow> P (files (snd (a s)))"
  by (simp add: keeps_def)

lemma keeps_skip [intro!]: "keeps P skip"
  by (simp add: keeps_def skip_def)

lemma keeps_emit [intro!]: "keeps P (emit n)"
  by (simp add: keeps_def emit_def)

lemma keeps_throw [intro!]: "keeps P (throw e)"
  by (simp add: keeps_def throw_def)

lemma keeps_run_Nil [intro!]: "keeps P (run [])"
  by (simp add: keeps_def)

lemma keeps_run_Cons [intro!]:
  assumes "keeps P a" and "keeps P (run as)"
  shows "keeps P (run (a # as))"
proof (rule keepsI)
  fix s :: state assume "P (files s)"
  then have "P (files (snd (a s)))" using keepsD [OF assms(1)] by blast
  then show "P (files (snd (run (a # as) s)))"
    using keepsD [OF assms(2), of "snd (a s)"]
    by (cases "a s") (auto split: option.splits)
qed

lemma keeps_if [intro!]: "(b \<Longrightarrow> keeps P x) \<Longrightarrow> (\<not> b \<Longrightarrow> keeps P y) \<Longrightarrow> keeps P (if b then x else y)"
  by simp

lemma keeps_require [intro!]: "keeps P (require ok n)"
  by (simp add: keeps_def require_def emit_def throw_def)

lemma keeps_fs_op:
  assumes "\<And>fs fs'. P fs \<Longrightarrow> f fs = Inr fs' \<Longrightarrow> P fs'"
  shows "keeps P (fs_op f)"
  using assms by (auto simp: keeps_def fs_op_def split: sum.splits)

lemma keeps_for_keys:
  assumes "\<And>k item. map_of items k = Some item \<Longrightarrow> keeps P (body k item)"
  shows "keeps P (for_keys body items ks)"
proof (rule keepsI)
  fix s :: state assume "P (files s)"
  then show "P (files (snd (for_keys body items ks s)))"
  proof (induction ks arbitrary: s)
    case Nil
    then show ?case by simp
  next
    case (Cons k ks)
    show ?case
    proof (cases "map_of items k")
      case None
      with Cons.prems show ?thesis by simp
    next
      case (Some item)
      then have "P (files (snd (body k item s)))"
        using assms Cons.prems keepsD by blast
      then show ?thesis
        using Some Cons.IH [of "snd (body k item s)"]
        by (cases "body k item s") (auto split: option.splits)
    qed
  qed
qed

subsection \<open>A directory stays a directory\<close>

lemma ensure_dirs_is_dir:
  "ensure_dirs m qs fs = Inr fs' \<Longrightarrow> is_dir fs d \<Longrightarrow> is_dir fs' d"
proof (induction qs arbitrary: fs)
  case Nil
  then show ?case by simp
next
  case (Cons q qs)
  show ?case
  proof (cases "fs q")
    case None
    with Cons.prems have "is_dir (fs(q \<mapsto> Dir m)) d" by (auto simp: is_dir_def)
    with Cons None show ?thesis by simp
  next
    case (Some n)
    with Cons show ?thesis by (cases n) auto
  qed
qed

lemma mkdir_parents_is_dir:
  "mkdir_parents m p fs = Inr fs' \<Longrightarrow> is_dir fs d \<Longrightarrow> is_dir fs' d"
  by (auto simp: mkdir_parents_def split: if_splits dest: ensure_dirs_is_dir)

lemma write_text_is_dir:
  "write_text m p t fs = Inr fs' \<Longrightarrow> is_dir fs d \<Longrightarrow> is_dir fs' d"
  by (auto simp: write_text_def is_dir_def split: if_splits option.splits node.splits)

lemma touch_is_dir:
  "touch m p fs = Inr fs' \<Longrightarrow> is_dir fs d \<Longrightarrow> is_dir fs' d"
  by (auto simp: touch_def is_dir_def split: if_splits option.splits node.splits)

lemma chmod_is_dir:
  "chmod p m fs = Inr fs' \<Longrightarrow> is_dir fs d \<Longrightarrow> is_dir fs' d"
  by (auto simp: chmod_def is_dir_def split: if_splits option.splits node.splits)

lemma copy2_is_dir:
  "copy2 src dst fs = Inr fs' \<Longrightarrow> is_dir fs d \<Longrightarrow> is_dir fs' d"
  by (auto simp: copy2_def Let_def is_dir_def split: if_splits option.splits node.splits)

lemma keeps_dir_mkdir_parent [intro!]: "keeps (\<lambda>fs. is_dir fs d) (mkdir_parent_if_missing w dst)"
  by (auto simp: keeps_def mkdir_parent_if_missing_def fs_op_def split: sum.splits
      dest: mkdir_parents_is_dir)

lemma keeps_dir_render_to [intro!]: "keeps (\<lambda>fs. is_dir fs d) (render_to w src x dst)"
  by (auto simp: keeps_def render_to_def fs_op_def split: sum.splits option.splits node.splits
      dest: write_text_is_dir)

lemma keeps_dir_chmod_by [intro!]: "keeps (\<lambda>fs. is_dir fs d) (chmod_by dst x)"
  unfolding chmod_by_def by (rule keeps_fs_op) (rule chmod_is_dir)

lemma keeps_dir_copy2 [intro!]: "keeps (\<lambda>fs. is_dir fs d) (fs_op (copy2 src dst))"
  by (rule keeps_fs_op) (rule copy2_is_dir)

lemma keeps_dir_touch [intro!]: "keeps (\<lambda>fs. is_dir fs d) (fs_op (touch m dst))"
  by (rule keeps_fs_op) (rule touch_is_dir)

lemma install_item_keeps_dir:
  assumes "length item \<noteq> 1"
  shows "keeps (\<lambda>fs. is_dir fs d) (install_item w c key item)"
  using assms unfolding install_item_def Let_def
  by (auto split: list.split pyval.split option.split)

section \<open>Two stagings side by side\<close>

lemma alike_refl [simp]: "alike x x"
  by (cases x) (auto split: node.splits intro: alike.elims)

lemma alike_None [simp]: "alike a None \<longleftrightarrow> a = None" "alike None b \<longleftrightarrow> b = None"
  by (cases a; cases b; auto split: node.splits elim: alike.elims)+

lemma alike_cases:
  assumes "alike a b"
  obtains (absent) "a = None" "b = None"
  | (files) t m n where "a = Some (File t m)" "b = Some (File t n)"
  | (dirs) m n where "a = Some (Dir m)" "b = Some (Dir n)"
  using assms by (auto elim!: alike.elims)

lemma same_contents_alike: "same_contents c fs1 fs2 \<Longrightarrow> alike (fs1 p) (fs2 p)"
  unfolding same_contents_def by (metis alike_refl)

lemma same_contents_below: "same_contents c fs1 fs2 \<Longrightarrow> prefix c p \<Longrightarrow> fs1 p = fs2 p"
  unfolding same_contents_def by metis

lemma same_contents_None: "same_contents c fs1 fs2 \<Longrightarrow> fs1 p = None \<longleftrightarrow> fs2 p = None"
  using same_contents_alike [of c fs1 fs2 p] by (auto elim: alike_cases)

lemma same_contents_is_dir: "same_contents c fs1 fs2 \<Longrightarrow> is_dir fs1 p \<longleftrightarrow> is_dir fs2 p"
  using same_contents_alike [of c fs1 fs2 p] by (auto simp: is_dir_def elim!: alike_cases)

lemma same_contents_is_file: "same_contents c fs1 fs2 \<Longrightarrow> is_file fs1 p \<longleftrightarrow> is_file fs2 p"
  using same_contents_alike [of c fs1 fs2 p] by (auto simp: is_file_def elim!: alike_cases)

lemma same_contents_upd:
  "same_contents c fs1 fs2 \<Longrightarrow> same_contents c (fs1(p \<mapsto> n)) (fs2(p \<mapsto> n))"
  by (simp add: same_contents_def)

lemma no_dirs_below_upd_file:
  "no_dirs_below c fs \<Longrightarrow> no_dirs_below c (fs(p \<mapsto> File t m))"
  by (simp add: no_dirs_below_def is_dir_def)

lemma no_dirs_below_upd_outside:
  "no_dirs_below c fs \<Longrightarrow> \<not> (prefix c p \<and> p \<noteq> c) \<Longrightarrow> no_dirs_below c (fs(p \<mapsto> n))"
  by (auto simp: no_dirs_below_def is_dir_def)

lemma togetherI:
  assumes "\<And>fs1 fs2 e. same_contents c fs1 fs2 \<Longrightarrow> no_dirs_below c fs1 \<Longrightarrow> f fs1 = Inl e \<Longrightarrow> f fs2 = Inl e"
    and "\<And>fs1 fs2 a. same_contents c fs1 fs2 \<Longrightarrow> no_dirs_below c fs1 \<Longrightarrow> f fs1 = Inr a \<Longrightarrow>
           \<exists>b. f fs2 = Inr b \<and> same_contents c a b \<and> no_dirs_below c a"
  shows "together c f"
  unfolding together_def using assms by (auto split: sum.splits)

lemma together_chmod: "together c (chmod p m)"
proof (rule togetherI)
  fix fs1 fs2 :: filesystem and e
  assume sc: "same_contents c fs1 fs2" and "chmod p m fs1 = Inl e"
  then show "chmod p m fs2 = Inl e"
    using same_contents_alike [OF sc, of p]
    by (auto simp: chmod_def elim!: alike_cases split: option.splits node.splits)
next
  fix fs1 fs2 a :: filesystem
  assume sc: "same_contents c fs1 fs2" and nd: "no_dirs_below c fs1" and r: "chmod p m fs1 = Inr a"
  from same_contents_alike [OF sc, of p] show "\<exists>b. chmod p m fs2 = Inr b \<and> same_contents c a b \<and> no_dirs_below c a"
  proof (cases rule: alike_cases)
    case absent
    with r show ?thesis by (simp add: chmod_def)
  next
    case (files t k n)
    with r sc nd show ?thesis
      by (auto simp: chmod_def same_contents_upd no_dirs_below_upd_file)
  next
    case (dirs k n)
    have "no_dirs_below c (fs1(p \<mapsto> Dir m))"
      using nd dirs(1) by (auto simp: no_dirs_below_def is_dir_def)
    with dirs r sc show ?thesis
      by (auto simp: chmod_def same_contents_upd)
  qed
qed

lemma together_write_text: "together c (write_text m p t)"
proof (rule togetherI)
  fix fs1 fs2 :: filesystem and e
  assume sc: "same_contents c fs1 fs2" and "write_text m p t fs1 = Inl e"
  then show "write_text m p t fs2 = Inl e"
    using same_contents_alike [OF sc, of p] same_contents_is_dir [OF sc, of "parent p"]
    by (auto simp: write_text_def elim!: alike_cases split: option.splits node.splits if_splits)
next
  fix fs1 fs2 a :: filesystem
  assume sc: "same_contents c fs1 fs2" and nd: "no_dirs_below c fs1" and r: "write_text m p t fs1 = Inr a"
  then have par: "is_dir fs1 (parent p)" "is_dir fs2 (parent p)"
    using same_contents_is_dir [OF sc, of "parent p"] by (auto simp: write_text_def split: if_splits)
  from same_contents_alike [OF sc, of p]
  show "\<exists>b. write_text m p t fs2 = Inr b \<and> same_contents c a b \<and> no_dirs_below c a"
  proof (cases rule: alike_cases)
    case absent
    with r sc nd par show ?thesis
      by (auto simp: write_text_def same_contents_upd no_dirs_below_upd_file)
  next
    case (files u k n)
    have "k = n" if "prefix c p"
      using same_contents_below [OF sc that] files by simp
    then have "same_contents c (fs1(p \<mapsto> File t k)) (fs2(p \<mapsto> File t n))"
      using sc by (auto simp: same_contents_def)
    with files r nd par show ?thesis
      by (auto simp: write_text_def no_dirs_below_upd_file)
  next
    case (dirs k n)
    with r par show ?thesis by (simp add: write_text_def)
  qed
qed

lemma together_touch: "together c (touch m p)"
proof (rule togetherI)
  fix fs1 fs2 :: filesystem and e
  assume sc: "same_contents c fs1 fs2" and "touch m p fs1 = Inl e"
  then show "touch m p fs2 = Inl e"
    using same_contents_None [OF sc, of p] same_contents_is_dir [OF sc, of "parent p"]
    by (auto simp: touch_def split: if_splits)
next
  fix fs1 fs2 a :: filesystem
  assume sc: "same_contents c fs1 fs2" and nd: "no_dirs_below c fs1" and r: "touch m p fs1 = Inr a"
  then show "\<exists>b. touch m p fs2 = Inr b \<and> same_contents c a b \<and> no_dirs_below c a"
    using same_contents_None [OF sc, of p] same_contents_is_dir [OF sc, of "parent p"]
    by (auto simp: touch_def same_contents_upd no_dirs_below_upd_file split: if_splits)
qed

lemma ensure_dirs_together:
  assumes "same_contents c fs1 fs2" and "no_dirs_below c fs1"
    and "\<And>q. q \<in> set qs \<Longrightarrow> \<not> (prefix c q \<and> q \<noteq> c)"
  shows "case ensure_dirs m qs fs1 of
           Inl e \<Rightarrow> ensure_dirs m qs fs2 = Inl e
         | Inr a \<Rightarrow> (\<exists>b. ensure_dirs m qs fs2 = Inr b \<and> same_contents c a b \<and> no_dirs_below c a)"
  using assms
proof (induction qs arbitrary: fs1 fs2)
  case Nil
  then show ?case by simp
next
  case (Cons q qs)
  from same_contents_alike [OF Cons.prems(1), of q] show ?case
  proof (cases rule: alike_cases)
    case absent
    have "same_contents c (fs1(q \<mapsto> Dir m)) (fs2(q \<mapsto> Dir m))"
      using Cons.prems(1) by (rule same_contents_upd)
    moreover have "no_dirs_below c (fs1(q \<mapsto> Dir m))"
      using Cons.prems(2,3) by (auto intro: no_dirs_below_upd_outside)
    moreover have "\<And>x. x \<in> set qs \<Longrightarrow> \<not> (prefix c x \<and> x \<noteq> c)"
      using Cons.prems(3) by simp
    ultimately have "case ensure_dirs m qs (fs1(q \<mapsto> Dir m)) of
           Inl e \<Rightarrow> ensure_dirs m qs (fs2(q \<mapsto> Dir m)) = Inl e
         | Inr a \<Rightarrow> (\<exists>b. ensure_dirs m qs (fs2(q \<mapsto> Dir m)) = Inr b \<and> same_contents c a b \<and> no_dirs_below c a)"
      by (rule Cons.IH)
    then show ?thesis using absent by (auto split: sum.splits)
  next
    case (files t k n)
    then show ?thesis by simp
  next
    case (dirs k n)
    have "\<And>x. x \<in> set qs \<Longrightarrow> \<not> (prefix c x \<and> x \<noteq> c)"
      using Cons.prems(3) by simp
    with Cons.prems(1,2) have "case ensure_dirs m qs fs1 of
           Inl e \<Rightarrow> ensure_dirs m qs fs2 = Inl e
         | Inr a \<Rightarrow> (\<exists>b. ensure_dirs m qs fs2 = Inr b \<and> same_contents c a b \<and> no_dirs_below c a)"
      by (rule Cons.IH)
    then show ?thesis using dirs by (auto split: sum.splits)
  qed
qed

lemma together_mkdir_parents:
  assumes "prefix p c"
  shows "together c (mkdir_parents m p)"
proof -
  have out: "\<not> (prefix c q \<and> q \<noteq> c)" if "q \<in> set (prefixes p)" for q
  proof
    assume a: "prefix c q \<and> q \<noteq> c"
    from that have "prefix q p" by (simp add: in_set_prefixes)
    with assms have "length q \<le> length c" by (meson prefix_length_le le_trans)
    with a show False by (auto simp: prefix_def)
  qed
  show ?thesis
    unfolding together_def mkdir_parents_def
  proof (intro allI impI)
    fix fs1 fs2 :: filesystem
    assume a: "same_contents c fs1 fs2 \<and> no_dirs_below c fs1"
    then have "fs1 p = None \<longleftrightarrow> fs2 p = None" using same_contents_None by blast
    then show "case (if fs1 p \<noteq> None then Inl OSError else ensure_dirs m (prefixes p) fs1) of
        Inl e \<Rightarrow> (if fs2 p \<noteq> None then Inl OSError else ensure_dirs m (prefixes p) fs2) = Inl e
      | Inr a \<Rightarrow> \<exists>b. (if fs2 p \<noteq> None then Inl OSError else ensure_dirs m (prefixes p) fs2) = Inr b \<and>
            same_contents c a b \<and> no_dirs_below c a"
      using ensure_dirs_together [of c fs1 fs2 "prefixes p" m] a out by auto
  qed
qed

section \<open>The directory of \<^verbatim>\<open>create_docker_files.py\<close>\<close>

lemma install_base_items_lengths:
  "map_of (install_base_items w a d p v) k = Some item \<Longrightarrow> length item \<noteq> 1"
proof -
  assume "map_of (install_base_items w a d p v) k = Some item"
  then have "(k, item) \<in> set (install_base_items w a d p v)" by (rule map_of_SomeD)
  then show ?thesis by (auto simp: install_base_items_def)
qed

lemma add_ros2_items_lengths:
  assumes "\<And>k item. map_of items k = Some item \<Longrightarrow> length item \<noteq> 1"
    and "map_of (add_ros2_items d items) k = Some item"
  shows "length item \<noteq> 1"
  using assms by (auto simp: add_ros2_items_def update_conv' split: if_splits)

lemma add_optional_items_lengths:
  assumes "\<And>k item. map_of items k = Some item \<Longrightarrow> length item \<noteq> 1"
    and "map_of (add_optional_items a d items) k = Some item"
  shows "length item \<noteq> 1"
  using assms by (auto simp: add_optional_items_def Let_def update_conv' split: if_splits)

lemma create_items_to_install_result:
  assumes "create_items_to_install w a d s = (r, s')"
  shows "files s' = files s"
    and "r = Inr items \<Longrightarrow> map_of items k = Some item \<Longrightarrow> length item \<noteq> 1"
proof -
  obtain r1 s1 where 1: "read_required (joinpath (root_path w) (''packages_ros'' @ ros_version d @ ''.txt'')) s = (r1, s1)"
    by (cases "read_required (joinpath (root_path w) (''packages_ros'' @ ros_version d @ ''.txt'')) s")
  obtain r2 s2 where 2: "read_required (joinpath (root_path w) (''env_vars_ros'' @ ros_version d @ ''.txt'')) s1 = (r2, s2)"
    by (cases "read_required (joinpath (root_path w) (''env_vars_ros'' @ ros_version d @ ''.txt'')) s1")
  note f1 = read_required_result [OF 1] and f2 = read_required_result [OF 2]
  show "files s' = files s"
    using assms 1 2 f1 f2 by (cases r1; cases r2) (auto simp: create_items_to_install_def)
  assume r: "r = Inr items" and m: "map_of items k = Some item"
  from assms 1 2 r obtain p v where
    "items = add_optional_items a d (add_ros2_items d (install_base_items w a d p v))"
    by (cases r1; cases r2) (auto simp: create_items_to_install_def)
  with m have "map_of (add_optional_items a d (add_ros2_items d (install_base_items w a d p v))) k = Some item"
    by simp
  then show "length item \<noteq> 1"
    by (rule add_optional_items_lengths [rotated])
      (erule add_ros2_items_lengths [rotated], erule install_base_items_lengths)
qed

lemma install_items_keeps_dir:
  assumes "\<And>k item. map_of items k = Some item \<Longrightarrow> length item \<noteq> 1"
  shows "keeps (\<lambda>fs. is_dir fs d) (install_items w items c)"
  unfolding install_items_def
  by (rule keeps_for_keys) (rule install_item_keeps_dir, rule assms)

lemma main_create_keeps_context:
  assumes "\<not> isl (fst (derive a s))"
  shows "is_dir (files (snd (main_create w a s))) (tmp_dir w)"
proof -
  from assms obtain d s1 where d: "derive a s = (Inr d, s1)"
    by (cases "derive a s"; cases "fst (derive a s)") auto
  let ?s2 = "s1\<lparr>files := (files s1)(tmp_dir w \<mapsto> Dir mode_700),
      console := console s1 @ [CreatedContextDir (path_str (tmp_dir w))]\<rparr>"
  obtain r s3 where c: "create_items_to_install w a d ?s2 = (r, s3)"
    by (cases "create_items_to_install w a d ?s2")
  from create_items_to_install_result(1) [OF c]
  have dir3: "is_dir (files s3) (tmp_dir w)" by (simp add: is_dir_def)
  show ?thesis
  proof (cases r)
    case (Inl e)
    with d c dir3 show ?thesis by (simp add: main_create_def)
  next
    case (Inr items)
    have "keeps (\<lambda>fs. is_dir fs (tmp_dir w)) (install_items w items (tmp_dir w))"
      by (rule install_items_keeps_dir) (rule create_items_to_install_result(2) [OF c Inr])
    then have "is_dir (files (snd (install_items w items (tmp_dir w) s3))) (tmp_dir w)"
      using dir3 by (rule keepsD)
    with d c Inr show ?thesis
      by (cases "install_items w items (tmp_dir w) s3") (auto simp: main_create_def split: option.splits)
  qed
qed

text \<open>
  C1.  \<^verbatim>\<open>ros_base_imgs/build.py\<close> removes its context directory on every path: whatever was
  absent at and below the directory before the run is absent after it.
  \<^verbatim>\<open>create_docker_files.py\<close> never removes its directory: once the arguments are valid the
  directory is made, and it is still a directory when the script ends, by success or by
  failure.
\<close>

theorem context_directory_lifetime:
  "(prefix (tmp_dir w) q \<and> files s q = None \<longrightarrow> files (snd (main_build w a s)) q = None) \<and>
   (\<not> isl (fst (derive a s)) \<longrightarrow> is_dir (files (snd (main_create w a s))) (tmp_dir w))"
  using main_build_removes_context main_create_keeps_context by blast

theorem context_directory_lifetime_witness:
  "files (snd (main_build world_interrupt sample_args sample_state)) [''tmp'', ''context_x'', ''Dockerfile''] = None \<and>
   is_dir (files (snd (main_create sample_world sample_args sample_state))) [''tmp'', ''context_x'']"
proof -
  have 1: "prefix (tmp_dir world_interrupt) [''tmp'', ''context_x'', ''Dockerfile'']"
    by code_simp
  have 2: "files sample_state [''tmp'', ''context_x'', ''Dockerfile''] = None"
    by code_simp
  have 3: "\<not> isl (fst (derive sample_args sample_state))"
    by code_simp
  have 4: "tmp_dir sample_world = [''tmp'', ''context_x'']"
    by code_simp
  from context_directory_lifetime [of world_interrupt "[''tmp'', ''context_x'', ''Dockerfile'']" sample_state sample_args]
    context_directory_lifetime [of sample_world "[]" sample_state sample_args] 1 2 3 4
  show ?thesis by simp
qed

text \<open>
  A run of \<^verbatim>\<open>create_docker_files.py\<close> that succeeds: the exit code is 0, and the directory and
  the rendered Dockerfile are on disk after it.
\<close>

theorem create_docker_files_leaves_directory:
  "left_behind [[''tmp'', ''context_x''], [''tmp'', ''context_x'', ''Dockerfile'']]
     (main_create sample_world sample_args sample_state) =
   (0, [Some (Dir mode_700), Some (File ''FROM ubuntu:22.04'' mode_664)])"
  by code_simp

section \<open>The exit code after an interrupt\<close>

lemma run_and_log_interrupted:
  "docker_build w = Interrupted lines \<Longrightarrow> fst (snd (run_and_log w img code s)) = code"
  by (auto simp: run_and_log_def Let_def split: prod.splits option.splits)

lemma run_coded_after_lifts:
  assumes "\<And>t. fst (snd (r code t)) = code"
  shows "fst (snd (run_coded (map lift as @ [r]) code s)) = code"
proof -
  obtain e c t where x: "run_coded (map lift as) code s = (e, c, t)"
    using prod_cases3 by blast
  have c: "c = code"
    using run_coded_lifts [of as code s] unfolding x by simp
  show ?thesis
    unfolding run_coded_append x run_coded_single using assms c by (cases e) auto
qed

lemma main_build_interrupted:
  assumes "docker_build w = Interrupted lines" and "\<not> isl (fst (prepare w a s))"
  shows "fst (main_build w a s) = 1"
proof -
  from assms(2) obtain d items s' where p: "prepare w a s = (Inr (d, items), s')"
    by (cases "prepare w a s"; cases "fst (prepare w a s)") auto
  let ?s = "s'\<lparr>files := (files s')(tmp_dir w \<mapsto> Dir mode_700)\<rparr>"
  obtain e code t where b: "build_in_context w a d items (tmp_dir w) 1 ?s = (e, code, t)"
    using prod_cases3 by blast
  have "fst (snd (build_in_context w a d items (tmp_dir w) 1 ?s)) = 1"
    unfolding build_in_context_split
    by (rule run_coded_after_lifts) (rule run_and_log_interrupted [OF assms(1)])
  with b have "code = 1" by simp
  with p b show ?thesis
    by (simp add: main_build_def with_temporary_directory_def handle_and_exit_code)
qed

lemma main_sensor_interrupted:
  assumes "docker_build w = Interrupted lines" and "\<not> isl (fst (sensor_derive w a s))"
    and "\<not> arg_pull a"
  shows "fst (main_sensor w a s) = 0"
proof -
  from assms(2) obtain d f s' where p: "sensor_derive w a s = (Inr (d, f), s')"
    by (cases "sensor_derive w a s"; cases "fst (sensor_derive w a s)") auto
  from assms(3) obtain cmd where c: "sensor_make_cmd w a d f = ([], Inr cmd)"
    by (simp add: sensor_make_cmd_def Let_def)
  let ?as = "[emit (BuildingImage (img_id_to_build d)), emit (ExecutingCommand cmd)]"
  obtain e code t where b:
    "run_coded (map lift ?as @ [run_and_log w (img_id_to_build d)]) 0 s' = (e, code, t)"
    using prod_cases3 by blast
  have "fst (snd (run_coded (map lift ?as @ [run_and_log w (img_id_to_build d)]) 0 s')) = 0"
    by (rule run_coded_after_lifts) (rule run_and_log_interrupted [OF assms(1)])
  with b have "code = 0" by simp
  with p c b show ?thesis
    by (simp add: main_sensor_def handle_and_exit_code)
qed

text \<open>
  C3.  When the user interrupts the build, \<^verbatim>\<open>ros_base_imgs/build.py\<close> exits with 1, the
  value \<^verbatim>\<open>exit_code\<close> starts with, and \<^verbatim>\<open>sensor_imgs/build.py\<close> exits with 0, the value
  \<^verbatim>\<open>exit_code\<close> starts with there: no build has succeeded and the exit code is 0.
\<close>

theorem exit_code_after_interrupt:
  assumes "docker_build w = Interrupted lines"
  shows "(\<not> isl (fst (prepare w a s)) \<longrightarrow> fst (main_build w a s) = 1) \<and>
         (\<not> isl (fst (sensor_derive w a s)) \<and> \<not> arg_pull a \<longrightarrow> fst (main_sensor w a s) = 0)"
  using assms main_build_interrupted main_sensor_interrupted by blast

theorem exit_code_after_interrupt_witness:
  "fst (main_build world_interrupt sample_args sample_state) = 1 \<and>
   fst (main_sensor world_interrupt sample_args sample_state) = 0"
proof -
  have 1: "docker_build world_interrupt = Interrupted [''step 1'' @ [newline]]"
    by (simp add: world_interrupt_def)
  have 2: "\<not> isl (fst (prepare world_interrupt sample_args sample_state))"
    by code_simp
  have 3: "\<not> isl (fst (sensor_derive world_interrupt sample_args sample_state))"
    by code_simp
  have 4: "\<not> arg_pull sample_args"
    by code_simp
  from exit_code_after_interrupt [OF 1, of sample_args sample_state] 2 3 4
  show ?thesis by blast
qed

section \<open>The log filter\<close>

lemma filter_log_nonempty:
  assumes "files s complete = Some (File text k)" and "text \<noteq> []"
    and "is_dir (files s) (parent specific)" and "files s specific = None"
    and "\<not> unlink_raises w"
  shows "filter_log w complete specific code s =
     (if filter log_line_selected (py_lines text) = []
      then (None, code, s\<lparr>console := console s @ [LogReady (path_str complete), NoMatchingLines]\<rparr>)
      else (None, code,
            s\<lparr>console := console s @ [LogReady (path_str complete), SpecificLogReady (path_str specific)],
              files := (files s)(specific \<mapsto>
                File (concat (filter log_line_selected (py_lines text))) (file_mode w))\<rparr>))"
  using assms
  by (simp add: filter_log_def Let_def lift_def emit_def fs_op_def write_text_def
      unlink_or_flag_def unlink_def fun_upd_idem)

lemma filter_log_empty:
  "files s complete = Some (File [] k) \<Longrightarrow> \<not> unlink_raises w \<Longrightarrow>
   filter_log w complete specific code s = (None, code, s\<lparr>files := (files s)(complete := None)\<rparr>)"
  by (simp add: filter_log_def unlink_or_flag_def unlink_def)

lemma unlink_or_flag_code:
  "code \<noteq> 0 \<Longrightarrow> fst (snd (unlink_or_flag w ok p code s)) = code"
  "unlink_raises w \<Longrightarrow> fst (snd (unlink_or_flag w ok p code s)) \<noteq> 0"
  by (auto simp: unlink_or_flag_def unlink_def split: sum.splits)

text \<open>
  C8.  The example of the specification, run through both build scripts: when the build
  succeeds, the specific log holds the two bracketed lines in their order.  When the build
  fails, the message of the failure raises \<^verbatim>\<open>AttributeError\<close> and the filter is never
  reached: a failed build that printed a bracketed line gets no specific log, and a
  failed build that printed nothing leaves its complete log of zero bytes on disk.
\<close>

theorem log_filter_skipped_after_failure:
  "logs_after world_success ''ros:humble'' (main_build world_success sample_args sample_state) =
     (0, Some (SpecificLogReady ''/tmp/build_img_ros_humble_2024-01-01_00-00-00_specific.log''),
      Some (File (''[2024-01-01_00-00-00] start'' @ [newline] @ ''noise'' @ [newline]
                  @ ''[2024-01-01_00-00-05] done'' @ [newline]) (file_mode sample_world)),
      Some (File (''[2024-01-01_00-00-00] start'' @ [newline]
                  @ ''[2024-01-01_00-00-05] done'' @ [newline]) (file_mode sample_world))) \<and>
   logs_after world_failure ''ros:humble'' (main_build world_failure sample_args sample_state) =
     (1, Some (ErrorRaised AttributeError),
      Some (File (''[2024-01-01_00-00-00] start'' @ [newline] @ ''boom'' @ [newline])
              (file_mode sample_world)),
      None) \<and>
   logs_after world_failure ''ros:humble'' (main_sensor world_failure sample_args sample_state) =
     (1, Some (ErrorRaised AttributeError),
      Some (File (''[2024-01-01_00-00-00] start'' @ [newline] @ ''boom'' @ [newline])
              (file_mode sample_world)),
      None) \<and>
   logs_after world_silent_failure ''ros:humble''
       (main_build world_silent_failure sample_args sample_state) =
     (1, Some (ErrorRaised AttributeError), Some (File [] (file_mode sample_world)), None) \<and>
   logs_after world_silent_failure ''ros:humble''
       (main_sensor world_silent_failure sample_args sample_state) =
     (1, Some (ErrorRaised AttributeError), Some (File [] (file_mode sample_world)), None)"
proof -
  have a: "logs_after world_success ''ros:humble'' (main_build world_success sample_args sample_state) =
     (0, Some (SpecificLogReady ''/tmp/build_img_ros_humble_2024-01-01_00-00-00_specific.log''),
      Some (File (''[2024-01-01_00-00-00] start'' @ [newline] @ ''noise'' @ [newline]
                  @ ''[2024-01-01_00-00-05] done'' @ [newline]) (file_mode sample_world)),
      Some (File (''[2024-01-01_00-00-00] start'' @ [newline]
                  @ ''[2024-01-01_00-00-05] done'' @ [newline]) (file_mode sample_world)))"
    by code_simp
  have b: "logs_after world_failure ''ros:humble'' (main_build world_failure sample_args sample_state) =
     (1, Some (ErrorRaised AttributeError),
      Some (File (''[2024-01-01_00-00-00] start'' @ [newline] @ ''boom'' @ [newline])
              (file_mode sample_world)),
      None)"
    by code_simp
  have c: "logs_after world_failure ''ros:humble'' (main_sensor world_failure sample_args sample_state) =
     (1, Some (ErrorRaised AttributeError),
      Some (File (''[2024-01-01_00-00-00] start'' @ [newline] @ ''boom'' @ [newline])
              (file_mode sample_world)),
      None)"
    by code_simp
  have d: "logs_after world_silent_failure ''ros:humble''
       (main_build world_silent_failure sample_args sample_state) =
     (1, Some (ErrorRaised AttributeError), Some (File [] (file_mode sample_world)), None)"
    by code_simp
  have e: "logs_after world_silent_failure ''ros:humble''
       (main_sensor world_silent_failure sample_args sample_state) =
     (1, Some (ErrorRaised AttributeError), Some (File [] (file_mode sample_world)), None)"
    by code_simp
  from a b c d e show ?thesis by (intro conjI)
qed

end
